theory Spec2Isabelle
  imports Complex_Main "HOL-Library.Sublist"
begin

section \<open>The model function of \<open>HorovodEstimator.py\<close>\<close>

text \<open>
  The notebook runs TensorFlow in graph mode: \<open>model_fn\<close> computes no number, it builds
  graph operations and returns an \<open>EstimatorSpec\<close> that refers to them. The embedding keeps
  that level. A tensor is the term of the operation that produces it; each constructor
  stands for the library call of the same name with the arguments the source passes.
\<close>

datatype mode = TRAIN | EVAL | PREDICT

datatype dtype = Int32

datatype tensor =
    Placeholder string
  | Inference tensor int int
  | ArgMax tensor nat string
  | Softmax tensor string
  | Cast tensor dtype
  | OneHot tensor nat
  | SoftmaxCrossEntropy tensor tensor
  | GlobalStep

datatype optimizer =
    MomentumOptimizer rat rat
  | DistributedOptimizer optimizer

datatype train_op = Minimize optimizer tensor tensor

datatype metric = Accuracy tensor tensor

datatype hook = LoggingTensorHook "(string \<times> string) list" nat

datatype export_output = PredictOutput "(string \<times> tensor) list"

datatype graph_op = TensorOp tensor | TrainOp train_op | MetricOp metric

datatype error =
    KeyError string
  | IndexError
  | ValueError
  | FrameworkError string

record estimator_spec =
  spec_mode :: mode
  predictions :: "(string \<times> tensor) list option"
  loss :: "tensor option"
  train_op :: "train_op option"
  eval_metric_ops :: "(string \<times> metric) list option"
  export_outputs :: "(string \<times> export_output) list option"
  training_hooks :: "hook list"

text \<open>\<open>tf.saved_model.signature_constants.DEFAULT_SERVING_SIGNATURE_DEF_KEY\<close>.\<close>

definition DEFAULT_SERVING_SIGNATURE_DEF_KEY :: string where
  "DEFAULT_SERVING_SIGNATURE_DEF_KEY = ''serving_default''"

text \<open>
  \<open>model_fn(features, labels, mode, params)\<close>, lines 28 to 87. The first argument is the
  value of \<open>hvd.size()\<close>, the number of Horovod workers, which the source reads from the
  library when it builds the optimizer. The result pairs the returned specification with
  the operations added to the graph by this invocation, in the order of construction.
  A missing dictionary key raises \<open>KeyError\<close>, in the order in which Python evaluates the
  subscripts. The learning rate \<open>0.001 * hvd.size()\<close> and the momentum \<open>0.9\<close> are kept as
  exact rationals. \<open>Minimize opt l s\<close> is \<open>opt.minimize(loss=l, global_step=s)\<close>, and
  \<open>GlobalStep\<close> is the tensor \<open>tf.train.get_global_step()\<close> returns.
\<close>

definition model_fn ::
  "nat \<Rightarrow> (string \<rightharpoonup> tensor) \<Rightarrow> tensor \<Rightarrow> mode \<Rightarrow> (string \<rightharpoonup> int)
     \<Rightarrow> error + (estimator_spec \<times> graph_op list)" where
  "model_fn hvd_size features labels mode params =
    (case features ''image'' of
       None \<Rightarrow> Inl (KeyError ''image'')
     | Some input_layer \<Rightarrow>
    (case params ''hidden1_units'' of
       None \<Rightarrow> Inl (KeyError ''hidden1_units'')
     | Some h1 \<Rightarrow>
    (case params ''hidden2_units'' of
       None \<Rightarrow> Inl (KeyError ''hidden2_units'')
     | Some h2 \<Rightarrow>
      let logits = Inference input_layer h1 h2;
          classes = ArgMax logits 1 ''classes_tensor'';
          probabilities = Softmax logits ''softmax_tensor'';
          preds = [(''classes'', classes), (''probabilities'', probabilities)];
          exports = [(DEFAULT_SERVING_SIGNATURE_DEF_KEY, PredictOutput preds)];
          g1 = [TensorOp logits, TensorOp classes, TensorOp probabilities]
      in
      if mode = PREDICT then
        Inr (\<lparr>spec_mode = mode, predictions = Some preds, loss = None, train_op = None,
              eval_metric_ops = None, export_outputs = Some exports,
              training_hooks = []\<rparr>, g1)
      else
        let cast_labels = Cast labels Int32;
            onehot_labels = OneHot cast_labels 10;
            xent = SoftmaxCrossEntropy onehot_labels logits;
            g2 = g1 @ [TensorOp cast_labels, TensorOp onehot_labels, TensorOp xent]
        in
        if mode = TRAIN then
          let logging_hooks = [LoggingTensorHook [(''predictions'', ''classes_tensor'')] 5000];
              optimizer0 = MomentumOptimizer ((1 / 1000) * of_nat hvd_size) (9 / 10);
              optimizer1 = DistributedOptimizer optimizer0;
              minimize = Minimize optimizer1 xent GlobalStep
          in Inr (\<lparr>spec_mode = mode, predictions = None, loss = Some xent,
                   train_op = Some minimize, eval_metric_ops = None,
                   export_outputs = Some exports, training_hooks = logging_hooks\<rparr>,
                  g2 @ [TrainOp minimize])
        else
          let acc = Accuracy labels classes
          in Inr (\<lparr>spec_mode = mode, predictions = None, loss = Some xent,
                   train_op = None, eval_metric_ops = Some [(''accuracy'', acc)],
                   export_outputs = Some exports, training_hooks = []\<rparr>,
                  g2 @ [MetricOp acc]))))"

text \<open>Which graph operations compute a loss, and which are training operations.\<close>

fun is_loss_op :: "graph_op \<Rightarrow> bool" where
  "is_loss_op (TensorOp (SoftmaxCrossEntropy a b)) = True"
| "is_loss_op x = False"

fun is_train_op :: "graph_op \<Rightarrow> bool" where
  "is_train_op (TrainOp t) = True"
| "is_train_op x = False"

section \<open>Dataset loader and table builder\<close>

text \<open>
  A NumPy array is a shape and a flat row-major buffer. The images of the dataset are
  unsigned bytes, so the buffer holds naturals. \<open>y_train\<close> is one-dimensional and is
  modelled by the list of its elements.
\<close>

record ndarray =
  shape :: "nat list"
  buffer :: "nat list"


text \<open>
  \<open>x_train.reshape((x_train.shape[0], -1))\<close>, line 15. \<open>shape[0]\<close> of a zero-dimensional
  array raises \<open>IndexError\<close>; NumPy raises \<open>ValueError\<close> when the free dimension cannot be
  inferred: the array is empty along the first axis, or its size is not a multiple of it.
\<close>

definition reshape_rows :: "ndarray \<Rightarrow> error + ndarray" where
  "reshape_rows a =
    (case shape a of
       [] \<Rightarrow> Inl IndexError
     | n # rest \<Rightarrow>
         if n = 0 \<or> length (buffer a) mod n \<noteq> 0 then Inl ValueError
         else Inr \<lparr>shape = [n, length (buffer a) div n], buffer = buffer a\<rparr>)"

text \<open>\<open>x_train[i]\<close> on the two-dimensional array, for \<open>i \<ge> 0\<close>.\<close>

definition row_at :: "ndarray \<Rightarrow> nat \<Rightarrow> error + nat list" where
  "row_at a i =
    (case shape a of
       [n, k] \<Rightarrow> if i < n then Inr (take k (drop (i * k) (buffer a))) else Inl IndexError
     | _ \<Rightarrow> Inl IndexError)"

text \<open>
  The comprehension of line 16, \<open>[(x_train[i].astype(float).tolist(), int(y_train[i]))
  for i in range(len(y_train))]\<close>: the recursion walks \<open>y_train\<close> with the index \<open>i\<close>. A byte
  converts to a float exactly, so the floats are kept as rationals.
\<close>

fun build_data :: "ndarray \<Rightarrow> nat list \<Rightarrow> nat \<Rightarrow> error + (rat list \<times> int) list" where
  "build_data x [] i = Inr []"
| "build_data x (y # ys) i =
    (case row_at x i of
       Inl e \<Rightarrow> Inl e
     | Inr px \<Rightarrow>
        (case build_data x ys (Suc i) of
           Inl e \<Rightarrow> Inl e
         | Inr rs \<Rightarrow> Inr ((map of_nat px, int y) # rs)))"

datatype sql_type = ArrayType sql_type | FloatType | DoubleType | LongType | BooleanType

datatype sval = VNull | VBool bool | VLong int | VDouble rat | VArray "rat list"

record dataframe =
  schema :: "(string \<times> sql_type) list"
  rows :: "sval list list"

definition mnist_schema :: "(string \<times> sql_type) list" where
  "mnist_schema = [(''image'', ArrayType FloatType), (''label_col'', LongType)]"

text \<open>\<open>spark.createDataFrame(data, schema)\<close>, line 19.\<close>

definition createDataFrame ::
  "(rat list \<times> int) list \<Rightarrow> (string \<times> sql_type) list \<Rightarrow> dataframe" where
  "createDataFrame data sch =
     \<lparr>schema = sch, rows = map (\<lambda>(image, label). [VArray image, VLong label]) data\<rparr>"

text \<open>Lines 14 to 19, from the training part \<open>(x_train, y_train)\<close> that \<open>load_data\<close> returns.\<close>

definition load_cell :: "ndarray \<Rightarrow> nat list \<Rightarrow> error + dataframe" where
  "load_cell x_train y_train =
    (case reshape_rows x_train of
       Inl e \<Rightarrow> Inl e
     | Inr x \<Rightarrow>
        (case build_data x y_train 0 of
           Inl e \<Rightarrow> Inl e
         | Inr data \<Rightarrow> Inr (createDataFrame data mnist_schema)))"

subsection \<open>Column expressions\<close>

text \<open>
  The column expressions the notebook builds: \<open>rand()\<close>, a literal, \<open>>\<close>, and
  \<open>when(c, v).otherwise(e)\<close>; a \<open>when\<close> with no \<open>otherwise\<close> has the null literal as its
  last argument. An expression is evaluated once per row; \<open>u\<close> is the draw of \<open>rand()\<close> for
  that row. The literal \<open>0.8\<close> is kept as the rational \<open>4/5\<close>.
\<close>

datatype column =
    Rand
  | Lit sval
  | Gt column column
  | CaseWhen column column column

fun eval_column :: "rat \<Rightarrow> column \<Rightarrow> sval" where
  "eval_column u Rand = VDouble u"
| "eval_column u (Lit v) = v"
| "eval_column u (Gt a b) =
    (case (eval_column u a, eval_column u b) of
       (VDouble x, VDouble y) \<Rightarrow> VBool (y < x)
     | _ \<Rightarrow> VNull)"
| "eval_column u (CaseWhen c v e) =
    (if eval_column u c = VBool True then eval_column u v else eval_column u e)"

fun column_type :: "column \<Rightarrow> sql_type" where
  "column_type Rand = DoubleType"
| "column_type (Lit (VDouble x)) = DoubleType"
| "column_type (Lit (VLong n)) = LongType"
| "column_type (Lit (VArray xs)) = ArrayType DoubleType"
| "column_type (Lit v) = BooleanType"
| "column_type (Gt a b) = BooleanType"
| "column_type (CaseWhen c v e) = column_type v"

text \<open>\<open>when(rand() > 0.8, True).otherwise(False)\<close>, line 110.\<close>

definition isVal_column :: column where
  "isVal_column =
     CaseWhen (Gt Rand (Lit (VDouble (4 / 5)))) (Lit (VBool True)) (Lit (VBool False))"

text \<open>
  \<open>df.withColumn(name, col)\<close>: a new table, the argument is not changed. A column of that
  name is replaced in its place, otherwise the column is appended. \<open>draw i\<close> is the value
  of \<open>rand()\<close> for row \<open>i\<close>.
\<close>

definition index_of :: "string \<Rightarrow> (string \<times> sql_type) list \<Rightarrow> nat" where
  "index_of name sch = length (takeWhile (\<lambda>c. fst c \<noteq> name) sch)"

definition withColumn :: "string \<Rightarrow> column \<Rightarrow> (nat \<Rightarrow> rat) \<Rightarrow> dataframe \<Rightarrow> dataframe" where
  "withColumn name col draw df =
    (let k = index_of name (schema df);
         vals = map (\<lambda>i. eval_column (draw i) col) [0 ..< length (rows df)]
     in if k < length (schema df) then
          \<lparr>schema = (schema df)[k := (name, column_type col)],
           rows = map (\<lambda>(r, v). r[k := v]) (zip (rows df) vals)\<rparr>
        else
          \<lparr>schema = schema df @ [(name, column_type col)],
           rows = map (\<lambda>(r, v). r @ [v]) (zip (rows df) vals)\<rparr>)"

text \<open>The value of a named column in a row of a table; null when there is no such column.\<close>

definition cell :: "dataframe \<Rightarrow> string \<Rightarrow> sval list \<Rightarrow> sval" where
  "cell df name r =
    (let k = index_of name (schema df) in if k < length r then r ! k else VNull)"

section \<open>The two file systems\<close>

text \<open>
  The notebook touches two stores: the local file system of the driver, where the
  estimator writes its checkpoints, and the distributed file system behind \<open>dbutils.fs\<close>.
  A store is a list of files, each a path with its content; a directory is the set of
  files below it. \<open>dbutils.fs\<close> reads a path with the prefix \<open>file:\<close> as a local path and
  every other path, with the prefix \<open>dbfs:\<close> or with none, from the root of the
  distributed file system; a shell cell reads a path as a local path.
\<close>

datatype scheme = LocalFile | DBFS

type_synonym path = "scheme \<times> string list"

type_synonym filesystem = "(path \<times> string) list"

fun split_on :: "char \<Rightarrow> string \<Rightarrow> string list" where
  "split_on c [] = [[]]"
| "split_on c (x # xs) =
    (if x = c then [] # split_on c xs
     else (case split_on c xs of
             [] \<Rightarrow> [[x]]
           | w # ws \<Rightarrow> (x # w) # ws))"

definition components :: "string \<Rightarrow> string list" where
  "components s = filter (\<lambda>w. w \<noteq> []) (split_on (CHR ''/'') s)"

definition resolve :: "string \<Rightarrow> path" where
  "resolve s =
    (if take 5 s = ''file:'' then (LocalFile, components (drop 5 s))
     else if take 5 s = ''dbfs:'' then (DBFS, components (drop 5 s))
     else (DBFS, components s))"

definition local_path :: "string \<Rightarrow> path" where
  "local_path s = (LocalFile, components s)"

definition under :: "path \<Rightarrow> path \<Rightarrow> bool" where
  "under d p = (fst d = fst p \<and> prefix (snd d) (snd p))"

text \<open>
  \<open>dbutils.fs.rm(path, recurse)\<close> removes the file at the path, or with \<open>recurse\<close> every
  file below it; without \<open>recurse\<close> a directory that holds files is refused.
\<close>

definition dbutils_fs_rm :: "string \<Rightarrow> bool \<Rightarrow> filesystem \<Rightarrow> error + filesystem" where
  "dbutils_fs_rm s recurse fs =
    (let d = resolve s in
     if \<not> recurse \<and> list_ex (\<lambda>f. under d (fst f) \<and> fst f \<noteq> d) fs
     then Inl (FrameworkError ''rm: directory not empty'')
     else Inr (filter (\<lambda>f. \<not> under d (fst f)) fs))"

text \<open>
  \<open>dbutils.fs.cp(from, to, recurse)\<close> writes, for every file below \<open>from\<close>, a file with the
  same content at the same relative place below \<open>to\<close>, replacing a file already there.
\<close>

definition relocate :: "path \<Rightarrow> path \<Rightarrow> path \<Rightarrow> path" where
  "relocate src dst p = (fst dst, snd dst @ drop (length (snd src)) (snd p))"

definition dbutils_fs_cp :: "string \<Rightarrow> string \<Rightarrow> bool \<Rightarrow> filesystem \<Rightarrow> error + filesystem" where
  "dbutils_fs_cp from to recurse fs =
    (let src = resolve from;
         dst = resolve to;
         copies = map (\<lambda>f. (relocate src dst (fst f), snd f))
                      (filter (\<lambda>f. under src (fst f)) fs)
     in
     if \<not> recurse \<and> list_ex (\<lambda>f. under src (fst f) \<and> fst f \<noteq> src) fs
     then Inl (FrameworkError ''cp: source is a directory'')
     else Inr (copies @ filter (\<lambda>f. fst f \<notin> set (map fst copies)) fs))"

text \<open>The shell cell \<open>rm -rf path\<close>.\<close>

definition sh_rm_rf :: "string \<Rightarrow> filesystem \<Rightarrow> filesystem" where
  "sh_rm_rf s fs = filter (\<lambda>f. \<not> under (local_path s) (fst f)) fs"

text \<open>The content of the file at a path, when there is one.\<close>

definition content :: "filesystem \<Rightarrow> path \<Rightarrow> string option" where
  "content fs p = map_of fs p"

section \<open>The estimator and the pipeline\<close>

text \<open>The keyword arguments of the constructor call of lines 97 to 105.\<close>

record estimator =
  modelFn :: "(string \<rightharpoonup> tensor) \<Rightarrow> tensor \<Rightarrow> mode \<Rightarrow> (string \<rightharpoonup> int)
                \<Rightarrow> error + (estimator_spec \<times> graph_op list)"
  featureMapping :: "(string \<times> string) list"
  modelDir :: string
  labelCol :: string
  batchSize :: int
  maxSteps :: int
  isValidationCol :: string
  modelFnParams :: "(string \<times> int) list"
  saveCheckpointsSecs :: int

definition model_dir :: string where
  "model_dir = ''/tmp/horovod_estimator''"

definition new_estimator :: "nat \<Rightarrow> estimator" where
  "new_estimator workers =
     \<lparr>modelFn = model_fn workers,
      featureMapping = [(''image'', ''image'')],
      modelDir = model_dir,
      labelCol = ''label_col'',
      batchSize = 64,
      maxSteps = 5000,
      isValidationCol = ''isVal'',
      modelFnParams = [(''hidden1_units'', 100), (''hidden2_units'', 50)],
      saveCheckpointsSecs = 30\<rparr>"

text \<open>
  The docstring of \<open>model_fn\<close>, lines 35 to 37: \<open>params\<close> receives what was passed to the
  estimator as \<open>modelFnParams\<close>. This is the call the estimator makes.
\<close>

definition call_modelFn ::
  "estimator \<Rightarrow> (string \<rightharpoonup> tensor) \<Rightarrow> tensor \<Rightarrow> mode
     \<Rightarrow> error + (estimator_spec \<times> graph_op list)" where
  "call_modelFn est features labels mode =
     modelFn est features labels mode (map_of (modelFnParams est))"

text \<open>
  What the notebook takes from its libraries: the number of Horovod workers, the training
  part of the dataset, the draws of \<open>rand()\<close> by row, and the estimator's \<open>fit\<close> and the
  transformer's \<open>transform\<close>. \<open>fit\<close> may read and write both stores; \<open>transform\<close> may read
  them. Either may fail. The transformer is an abstract value \<open>'t\<close>.
\<close>

record 't framework =
  hvd_size :: nat
  mnist_train :: "ndarray \<times> nat list"
  rand_draw :: "nat \<Rightarrow> rat"
  fit_impl :: "estimator \<Rightarrow> dataframe \<Rightarrow> filesystem \<Rightarrow> error + ('t \<times> filesystem)"
  transform_impl :: "'t \<Rightarrow> dataframe \<Rightarrow> filesystem \<Rightarrow> error + dataframe"

text \<open>The calls the notebook makes into its libraries, with their arguments.\<close>

datatype 't event =
    EvLoadData string
  | EvCreateDataFrame
  | EvDisplay dataframe
  | EvHelp
  | EvFsRm string bool
  | EvFit estimator dataframe
  | EvTransform 't dataframe
  | EvSetMaxSteps int
  | EvFsCp string string bool
  | EvSh string
  | EvFsLs string

record 't nb_state =
  fs :: filesystem
  trace :: "'t event list"

definition and_then :: "error + 'a \<Rightarrow> ('a \<Rightarrow> error + 'b) \<Rightarrow> error + 'b" where
  "and_then m f = (case m of Inl e \<Rightarrow> Inl e | Inr x \<Rightarrow> f x)"

definition emit :: "'t event \<Rightarrow> 't nb_state \<Rightarrow> 't nb_state" where
  "emit e s = s\<lparr>trace := trace s @ [e]\<rparr>"

definition call_fs_rm :: "string \<Rightarrow> bool \<Rightarrow> 't nb_state \<Rightarrow> error + 't nb_state" where
  "call_fs_rm p recurse s =
     and_then (dbutils_fs_rm p recurse (fs s))
       (\<lambda>f. Inr (emit (EvFsRm p recurse) (s\<lparr>fs := f\<rparr>)))"

definition call_fs_cp :: "string \<Rightarrow> string \<Rightarrow> bool \<Rightarrow> 't nb_state \<Rightarrow> error + 't nb_state" where
  "call_fs_cp from to recurse s =
     and_then (dbutils_fs_cp from to recurse (fs s))
       (\<lambda>f. Inr (emit (EvFsCp from to recurse) (s\<lparr>fs := f\<rparr>)))"

definition call_fit ::
  "'t framework \<Rightarrow> estimator \<Rightarrow> dataframe \<Rightarrow> 't nb_state \<Rightarrow> error + ('t \<times> 't nb_state)" where
  "call_fit fw est df s =
     and_then (fit_impl fw est df (fs s))
       (\<lambda>(t, f). Inr (t, emit (EvFit est df) (s\<lparr>fs := f\<rparr>)))"

definition call_transform ::
  "'t framework \<Rightarrow> 't \<Rightarrow> dataframe \<Rightarrow> 't nb_state \<Rightarrow> error + (dataframe \<times> 't nb_state)" where
  "call_transform fw t df s =
     and_then (transform_impl fw t df (fs s))
       (\<lambda>r. Inr (r, emit (EvTransform t df) s))"

text \<open>Lines 94 and 95: the cleanup before the estimator is created.\<close>

definition cleanup_cell :: "'t nb_state \<Rightarrow> error + 't nb_state" where
  "cleanup_cell s = call_fs_rm (drop 5 model_dir) True s"

text \<open>Line 127: the copy of the checkpoint directory.\<close>

definition copy_cell :: "'t nb_state \<Rightarrow> error + 't nb_state" where
  "copy_cell s = call_fs_cp ''file:/tmp/horovod_estimator/'' ''dbfs:/horovod_estimator/'' True s"

text \<open>The variables of the notebook after its last cell, and the final state.\<close>

record 't outcome =
  out_df :: dataframe
  out_est :: estimator
  out_df_with_val :: dataframe
  out_transformer :: 't
  out_res :: dataframe
  out_new_transformer :: 't
  out_new_res :: dataframe
  out_state :: "'t nb_state"

text \<open>
  The cells of the notebook from top to bottom, run from the store \<open>fs0\<close>. The first error
  ends the run, as an exception in a cell does.
\<close>

definition notebook :: "'t framework \<Rightarrow> filesystem \<Rightarrow> error + 't outcome" where
  "notebook fw fs0 =
    (let s0 = emit (EvLoadData ''/tmp/mnist'') \<lparr>fs = fs0, trace = []\<rparr> in
     and_then (load_cell (fst (mnist_train fw)) (snd (mnist_train fw))) (\<lambda>df.
     let s1 = emit EvHelp (emit (EvDisplay df) (emit EvCreateDataFrame s0)) in
     and_then (cleanup_cell s1) (\<lambda>s2.
     let est = new_estimator (hvd_size fw);
         df_with_val = withColumn ''isVal'' isVal_column (rand_draw fw) df in
     and_then (call_fit fw est df_with_val s2) (\<lambda>(transformer, s3).
     and_then (call_transform fw transformer df s3) (\<lambda>(res, s4).
     let s5 = emit (EvSetMaxSteps 10000) (emit (EvDisplay res) s4);
         est' = est\<lparr>maxSteps := 10000\<rparr> in
     and_then (call_fit fw est' df_with_val s5) (\<lambda>(new_transformer, s6).
     and_then (call_transform fw transformer df s6) (\<lambda>(new_res, s7).
     and_then (copy_cell (emit (EvDisplay new_res) s7)) (\<lambda>s8.
     let s9 = emit (EvFsLs ''dbfs:/horovod_estimator/'')
                (emit (EvSh ''ls -ltr /tmp/horovod_estimator'') s8);
         s10 = emit (EvSh ''rm -rf /tmp/horovod_estimator'')
                 (s9\<lparr>fs := sh_rm_rf ''/tmp/horovod_estimator'' (fs s9)\<rparr>);
         s11 = emit (EvSh ''ls -ltr /tmp/horovod_estimator'') s10
     in Inr \<lparr>out_df = df, out_est = est', out_df_with_val = df_with_val,
             out_transformer = transformer, out_res = res,
             out_new_transformer = new_transformer, out_new_res = new_res,
             out_state = s11\<rparr>))))))))"

text \<open>The calls of \<open>fit\<close> and \<open>transform\<close> and the change of the step budget, in a trace.\<close>

fun is_stage :: "'t event \<Rightarrow> bool" where
  "is_stage (EvFit e d) = True"
| "is_stage (EvTransform t d) = True"
| "is_stage (EvSetMaxSteps n) = True"
| "is_stage e = False"

text \<open>
  A framework whose second fit, the one with the step budget 10000, returns the
  transformer \<open>t\<close> in place of its own and is otherwise the same.
\<close>

definition with_refit_result :: "'t framework \<Rightarrow> 't \<Rightarrow> 't framework" where
  "with_refit_result fw t =
     fw\<lparr>fit_impl := (\<lambda>est df f.
           if maxSteps est = 10000
           then and_then (fit_impl fw est df f) (\<lambda>(t0, f'). Inr (t, f'))
           else fit_impl fw est df f)\<rparr>"

text \<open>The calls of \<open>transform\<close> in a trace.\<close>

fun is_transform :: "'t event \<Rightarrow> bool" where
  "is_transform (EvTransform t d) = True"
| "is_transform e = False"

subsection \<open>A small run\<close>

text \<open>
  An instance of the libraries on which the notebook can be run: two workers, a dataset
  of one black image with the label 3, a draw of 0.9 for every row, a \<open>fit\<close> that returns
  its step budget as the transformer and writes one checkpoint file named after the
  budget into the local model directory, and a \<open>transform\<close> that appends the transformer
  as the predicted class. The store it starts from has an old file in the local model
  directory and a stale checkpoint in the distributed file system, and \<open>sample_outcome\<close>
  is what the notebook leaves behind.
\<close>

definition sample_framework :: "int framework" where
  "sample_framework =
     \<lparr>hvd_size = 2,
      mnist_train = (\<lparr>shape = [1, 28, 28], buffer = replicate 784 0\<rparr>, [3]),
      rand_draw = (\<lambda>i. 9 / 10),
      fit_impl = (\<lambda>est df f.
         Inr (maxSteps est,
              ((LocalFile, [''tmp'', ''horovod_estimator'', ''checkpoint'']),
               if maxSteps est = 5000 then ''model.ckpt-5000'' else ''model.ckpt-10000'')
              # filter (\<lambda>g. fst g \<noteq> (LocalFile, [''tmp'', ''horovod_estimator'', ''checkpoint''])) f)),
      transform_impl = (\<lambda>t df f.
         Inr \<lparr>schema = schema df @ [(''classes'', LongType)],
              rows = map (\<lambda>r. r @ [VLong t]) (rows df)\<rparr>)\<rparr>"

definition sample_store :: filesystem where
  "sample_store =
     [((LocalFile, [''tmp'', ''horovod_estimator'', ''events'']), ''old''),
      ((DBFS, [''horovod_estimator'', ''checkpoint'']), ''stale'')]"

definition sample_outcome :: "int outcome" where
  "sample_outcome =
     \<lparr>out_df = \<lparr>schema = mnist_schema, rows = [[VArray (replicate 784 0), VLong 3]]\<rparr>,
      out_est = (new_estimator 2)\<lparr>maxSteps := 10000\<rparr>,
      out_df_with_val = \<lparr>schema = mnist_schema @ [(''isVal'', BooleanType)],
                          rows = [[VArray (replicate 784 0), VLong 3, VBool True]]\<rparr>,
      out_transformer = 5000,
      out_res = \<lparr>schema = mnist_schema @ [(''classes'', LongType)],
                  rows = [[VArray (replicate 784 0), VLong 3, VLong 5000]]\<rparr>,
      out_new_transformer = 10000,
      out_new_res = \<lparr>schema = mnist_schema @ [(''classes'', LongType)],
                      rows = [[VArray (replicate 784 0), VLong 3, VLong 5000]]\<rparr>,
      out_state =
        \<lparr>fs = [((DBFS, [''horovod_estimator'', ''checkpoint'']), ''model.ckpt-10000''),
               ((DBFS, [''horovod_estimator'', ''events'']), ''old'')],
         trace =
           [EvLoadData ''/tmp/mnist'', EvCreateDataFrame,
            EvDisplay \<lparr>schema = mnist_schema, rows = [[VArray (replicate 784 0), VLong 3]]\<rparr>,
            EvHelp, EvFsRm ''horovod_estimator'' True,
            EvFit (new_estimator 2)
              \<lparr>schema = mnist_schema @ [(''isVal'', BooleanType)],
               rows = [[VArray (replicate 784 0), VLong 3, VBool True]]\<rparr>,
            EvTransform 5000
              \<lparr>schema = mnist_schema, rows = [[VArray (replicate 784 0), VLong 3]]\<rparr>,
            EvDisplay \<lparr>schema = mnist_schema @ [(''classes'', LongType)],
                        rows = [[VArray (replicate 784 0), VLong 3, VLong 5000]]\<rparr>,
            EvSetMaxSteps 10000,
            EvFit ((new_estimator 2)\<lparr>maxSteps := 10000\<rparr>)
              \<lparr>schema = mnist_schema @ [(''isVal'', BooleanType)],
               rows = [[VArray (replicate 784 0), VLong 3, VBool True]]\<rparr>,
            EvTransform 5000
              \<lparr>schema = mnist_schema, rows = [[VArray (replicate 784 0), VLong 3]]\<rparr>,
            EvDisplay \<lparr>schema = mnist_schema @ [(''classes'', LongType)],
                        rows = [[VArray (replicate 784 0), VLong 3, VLong 5000]]\<rparr>,
            EvFsCp ''file:/tmp/horovod_estimator/'' ''dbfs:/horovod_estimator/'' True,
            EvSh ''ls -ltr /tmp/horovod_estimator'', EvFsLs ''dbfs:/horovod_estimator/'',
            EvSh ''rm -rf /tmp/horovod_estimator'',
            EvSh ''ls -ltr /tmp/horovod_estimator'']\<rparr>\<rparr>"

section \<open>Properties of the model function\<close>

lemma model_fn_Inr:
  assumes "model_fn n features labels m params = Inr (spec, g)"
  obtains x h1 h2 where "features ''image'' = Some x"
    "params ''hidden1_units'' = Some h1" "params ''hidden2_units'' = Some h2"
  using assms unfolding model_fn_def
  by (auto split: option.splits)

lemma model_fn_returns:
  "(\<exists>spec g. model_fn n features labels m params = Inr (spec, g))
     = (\<exists>x h1 h2. features ''image'' = Some x \<and> params ''hidden1_units'' = Some h1
          \<and> params ''hidden2_units'' = Some h2)"
proof
  assume "\<exists>spec g. model_fn n features labels m params = Inr (spec, g)"
  then show "\<exists>x h1 h2. features ''image'' = Some x \<and> params ''hidden1_units'' = Some h1
          \<and> params ''hidden2_units'' = Some h2"
    by (auto elim: model_fn_Inr)
next
  assume "\<exists>x h1 h2. features ''image'' = Some x \<and> params ''hidden1_units'' = Some h1
          \<and> params ''hidden2_units'' = Some h2"
  then show "\<exists>spec g. model_fn n features labels m params = Inr (spec, g)"
    by (auto simp: model_fn_def Let_def)
qed

text \<open>
  C2. An invocation in mode \<open>PREDICT\<close> returns a specification exactly when the features
  hold the image and the parameters hold the two widths (it raises \<open>KeyError\<close> otherwise),
  and every specification it returns holds the predictions and the export mapping and
  nothing else: \<open>classes\<close> is the arg-max of the logits along axis 1, \<open>probabilities\<close> is the
  softmax of the logits, the export mapping holds the same two tensors under the serving
  key, there is no loss, no training operation, no metric and no hook, and the invocation
  has added to the graph the logits and the two predictions only, so no loss operation
  and no training operation.
\<close>

theorem predict_spec:
  "((\<exists>spec g. model_fn n features labels PREDICT params = Inr (spec, g))
      = (\<exists>x h1 h2. features ''image'' = Some x \<and> params ''hidden1_units'' = Some h1
           \<and> params ''hidden2_units'' = Some h2))
   \<and> (\<forall>spec g. model_fn n features labels PREDICT params = Inr (spec, g) \<longrightarrow>
         (\<exists>x h1 h2. features ''image'' = Some x \<and> params ''hidden1_units'' = Some h1
           \<and> params ''hidden2_units'' = Some h2
           \<and> predictions spec =
                Some [(''classes'', ArgMax (Inference x h1 h2) 1 ''classes_tensor''),
                      (''probabilities'', Softmax (Inference x h1 h2) ''softmax_tensor'')]
           \<and> export_outputs spec =
                Some [(DEFAULT_SERVING_SIGNATURE_DEF_KEY,
                       PredictOutput
                         [(''classes'', ArgMax (Inference x h1 h2) 1 ''classes_tensor''),
                          (''probabilities'', Softmax (Inference x h1 h2) ''softmax_tensor'')])]
           \<and> loss spec = None \<and> train_op spec = None \<and> eval_metric_ops spec = None
           \<and> training_hooks spec = []
           \<and> g = [TensorOp (Inference x h1 h2),
                   TensorOp (ArgMax (Inference x h1 h2) 1 ''classes_tensor''),
                   TensorOp (Softmax (Inference x h1 h2) ''softmax_tensor'')]
           \<and> \<not> list_ex is_loss_op g \<and> \<not> list_ex is_train_op g))"
proof (intro conjI allI impI)
  show "(\<exists>spec g. model_fn n features labels PREDICT params = Inr (spec, g))
      = (\<exists>x h1 h2. features ''image'' = Some x \<and> params ''hidden1_units'' = Some h1
           \<and> params ''hidden2_units'' = Some h2)"
    by (rule model_fn_returns)
next
  fix spec g
  assume r: "model_fn n features labels PREDICT params = Inr (spec, g)"
  then obtain x h1 h2 where k: "features ''image'' = Some x"
    "params ''hidden1_units'' = Some h1" "params ''hidden2_units'' = Some h2"
    by (rule model_fn_Inr)
  from r k show "\<exists>x h1 h2. features ''image'' = Some x \<and> params ''hidden1_units'' = Some h1
           \<and> params ''hidden2_units'' = Some h2
           \<and> predictions spec =
                Some [(''classes'', ArgMax (Inference x h1 h2) 1 ''classes_tensor''),
                      (''probabilities'', Softmax (Inference x h1 h2) ''softmax_tensor'')]
           \<and> export_outputs spec =
                Some [(DEFAULT_SERVING_SIGNATURE_DEF_KEY,
                       PredictOutput
                         [(''classes'', ArgMax (Inference x h1 h2) 1 ''classes_tensor''),
                          (''probabilities'', Softmax (Inference x h1 h2) ''softmax_tensor'')])]
           \<and> loss spec = None \<and> train_op spec = None \<and> eval_metric_ops spec = None
           \<and> training_hooks spec = []
           \<and> g = [TensorOp (Inference x h1 h2),
                   TensorOp (ArgMax (Inference x h1 h2) 1 ''classes_tensor''),
                   TensorOp (Softmax (Inference x h1 h2) ''softmax_tensor'')]
           \<and> \<not> list_ex is_loss_op g \<and> \<not> list_ex is_train_op g"
    by (auto simp: model_fn_def Let_def)
qed

theorem predict_spec_witness:
  "(\<exists>spec g. model_fn 4 [''image'' \<mapsto> Placeholder ''image''] (Placeholder ''label_col'')
                PREDICT [''hidden1_units'' \<mapsto> 100, ''hidden2_units'' \<mapsto> 50] = Inr (spec, g)
       \<and> predictions spec =
            Some [(''classes'', ArgMax (Inference (Placeholder ''image'') 100 50) 1 ''classes_tensor''),
                  (''probabilities'', Softmax (Inference (Placeholder ''image'') 100 50) ''softmax_tensor'')]
       \<and> loss spec = None \<and> train_op spec = None
       \<and> \<not> list_ex is_loss_op g \<and> \<not> list_ex is_train_op g)"
proof -
  let ?r = "model_fn 4 [''image'' \<mapsto> Placeholder ''image''] (Placeholder ''label_col'')
              PREDICT [''hidden1_units'' \<mapsto> 100, ''hidden2_units'' \<mapsto> 50]"
  have e: "?r = Inr (fst (projr ?r), snd (projr ?r))"
    by (simp add: model_fn_def Let_def)
  from predict_spec [THEN conjunct2, rule_format, OF e] e show ?thesis
    by (intro exI [of _ "fst (projr ?r)"] exI [of _ "snd (projr ?r)"]) auto
qed

text \<open>
  C4. An invocation in mode \<open>TRAIN\<close> returns a specification exactly when the features hold
  the image and the parameters hold the two widths, and every specification it returns
  minimises the loss with the momentum optimizer (momentum 0.9) wrapped in Horovod's
  \<open>DistributedOptimizer\<close>, the decorator that averages the gradients of all workers before
  they are applied, and the learning rate of the momentum optimizer is 0.001 times the
  number of workers. The training operation is the one training operation the invocation
  adds to the graph.
\<close>

theorem train_spec:
  "((\<exists>spec g. model_fn n features labels TRAIN params = Inr (spec, g))
      = (\<exists>x h1 h2. features ''image'' = Some x \<and> params ''hidden1_units'' = Some h1
           \<and> params ''hidden2_units'' = Some h2))
   \<and> (\<forall>spec g. model_fn n features labels TRAIN params = Inr (spec, g) \<longrightarrow>
         (\<exists>x h1 h2. features ''image'' = Some x \<and> params ''hidden1_units'' = Some h1
           \<and> params ''hidden2_units'' = Some h2
           \<and> loss spec =
               Some (SoftmaxCrossEntropy (OneHot (Cast labels Int32) 10) (Inference x h1 h2))
           \<and> train_op spec =
               Some (Minimize (DistributedOptimizer
                        (MomentumOptimizer ((1 / 1000) * of_nat n) (9 / 10)))
                      (SoftmaxCrossEntropy (OneHot (Cast labels Int32) 10) (Inference x h1 h2))
                      GlobalStep)
           \<and> training_hooks spec = [LoggingTensorHook [(''predictions'', ''classes_tensor'')] 5000]
           \<and> filter is_train_op g = [TrainOp (the (train_op spec))]))"
proof (intro conjI allI impI)
  show "(\<exists>spec g. model_fn n features labels TRAIN params = Inr (spec, g))
      = (\<exists>x h1 h2. features ''image'' = Some x \<and> params ''hidden1_units'' = Some h1
           \<and> params ''hidden2_units'' = Some h2)"
    by (rule model_fn_returns)
next
  fix spec g
  assume r: "model_fn n features labels TRAIN params = Inr (spec, g)"
  then obtain x h1 h2 where k: "features ''image'' = Some x"
    "params ''hidden1_units'' = Some h1" "params ''hidden2_units'' = Some h2"
    by (rule model_fn_Inr)
  from r k show "\<exists>x h1 h2. features ''image'' = Some x \<and> params ''hidden1_units'' = Some h1
           \<and> params ''hidden2_units'' = Some h2
           \<and> loss spec =
               Some (SoftmaxCrossEntropy (OneHot (Cast labels Int32) 10) (Inference x h1 h2))
           \<and> train_op spec =
               Some (Minimize (DistributedOptimizer
                        (MomentumOptimizer ((1 / 1000) * of_nat n) (9 / 10)))
                      (SoftmaxCrossEntropy (OneHot (Cast labels Int32) 10) (Inference x h1 h2))
                      GlobalStep)
           \<and> training_hooks spec = [LoggingTensorHook [(''predictions'', ''classes_tensor'')] 5000]
           \<and> filter is_train_op g = [TrainOp (the (train_op spec))]"
    by (auto simp: model_fn_def Let_def)
qed

theorem train_spec_witness:
  "(\<exists>spec g. model_fn 4 [''image'' \<mapsto> Placeholder ''image''] (Placeholder ''label_col'')
                TRAIN [''hidden1_units'' \<mapsto> 100, ''hidden2_units'' \<mapsto> 50] = Inr (spec, g)
       \<and> train_op spec =
           Some (Minimize (DistributedOptimizer (MomentumOptimizer (4 / 1000) (9 / 10)))
                  (SoftmaxCrossEntropy (OneHot (Cast (Placeholder ''label_col'') Int32) 10)
                     (Inference (Placeholder ''image'') 100 50))
                  GlobalStep))"
proof -
  let ?r = "model_fn 4 [''image'' \<mapsto> Placeholder ''image''] (Placeholder ''label_col'')
              TRAIN [''hidden1_units'' \<mapsto> 100, ''hidden2_units'' \<mapsto> 50]"
  have e: "?r = Inr (fst (projr ?r), snd (projr ?r))"
    by (simp add: model_fn_def Let_def)
  from train_spec [THEN conjunct2, rule_format, OF e] e show ?thesis
    by (intro exI [of _ "fst (projr ?r)"] exI [of _ "snd (projr ?r)"]) auto
qed

text \<open>
  C5. An invocation in mode \<open>EVAL\<close> returns a specification exactly when the features hold
  the image and the parameters hold the two widths, and every specification it returns
  carries the softmax cross-entropy of the logits against the labels cast to integers and
  one-hot encoded to 10 classes, which is the loss the same invocation in mode \<open>TRAIN\<close>
  carries, and one metric, \<open>accuracy\<close>, which is TensorFlow's accuracy metric (the fraction
  of rows on which its two arguments agree) of the labels against the arg-max of the
  logits. It has no training operation.
\<close>

theorem eval_spec:
  "((\<exists>spec g. model_fn n features labels EVAL params = Inr (spec, g))
      = (\<exists>x h1 h2. features ''image'' = Some x \<and> params ''hidden1_units'' = Some h1
           \<and> params ''hidden2_units'' = Some h2))
   \<and> (\<forall>spec g. model_fn n features labels EVAL params = Inr (spec, g) \<longrightarrow>
         (\<exists>x h1 h2. features ''image'' = Some x \<and> params ''hidden1_units'' = Some h1
           \<and> params ''hidden2_units'' = Some h2
           \<and> loss spec =
               Some (SoftmaxCrossEntropy (OneHot (Cast labels Int32) 10) (Inference x h1 h2))
           \<and> eval_metric_ops spec =
               Some [(''accuracy'',
                      Accuracy labels (ArgMax (Inference x h1 h2) 1 ''classes_tensor''))]
           \<and> train_op spec = None
           \<and> (\<exists>spec' g'. model_fn n features labels TRAIN params = Inr (spec', g')
                  \<and> loss spec' = loss spec)))"
proof (intro conjI allI impI)
  show "(\<exists>spec g. model_fn n features labels EVAL params = Inr (spec, g))
      = (\<exists>x h1 h2. features ''image'' = Some x \<and> params ''hidden1_units'' = Some h1
           \<and> params ''hidden2_units'' = Some h2)"
    by (rule model_fn_returns)
next
  fix spec g
  assume r: "model_fn n features labels EVAL params = Inr (spec, g)"
  then obtain x h1 h2 where k: "features ''image'' = Some x"
    "params ''hidden1_units'' = Some h1" "params ''hidden2_units'' = Some h2"
    by (rule model_fn_Inr)
  from r k show "\<exists>x h1 h2. features ''image'' = Some x \<and> params ''hidden1_units'' = Some h1
           \<and> params ''hidden2_units'' = Some h2
           \<and> loss spec =
               Some (SoftmaxCrossEntropy (OneHot (Cast labels Int32) 10) (Inference x h1 h2))
           \<and> eval_metric_ops spec =
               Some [(''accuracy'',
                      Accuracy labels (ArgMax (Inference x h1 h2) 1 ''classes_tensor''))]
           \<and> train_op spec = None
           \<and> (\<exists>spec' g'. model_fn n features labels TRAIN params = Inr (spec', g')
                  \<and> loss spec' = loss spec)"
    by (auto simp: model_fn_def Let_def)
qed

theorem eval_spec_witness:
  "(\<exists>spec g. model_fn 4 [''image'' \<mapsto> Placeholder ''image''] (Placeholder ''label_col'')
                EVAL [''hidden1_units'' \<mapsto> 100, ''hidden2_units'' \<mapsto> 50] = Inr (spec, g)
       \<and> loss spec =
           Some (SoftmaxCrossEntropy (OneHot (Cast (Placeholder ''label_col'') Int32) 10)
                   (Inference (Placeholder ''image'') 100 50))
       \<and> eval_metric_ops spec =
           Some [(''accuracy'', Accuracy (Placeholder ''label_col'')
                    (ArgMax (Inference (Placeholder ''image'') 100 50) 1 ''classes_tensor''))])"
proof -
  let ?r = "model_fn 4 [''image'' \<mapsto> Placeholder ''image''] (Placeholder ''label_col'')
              EVAL [''hidden1_units'' \<mapsto> 100, ''hidden2_units'' \<mapsto> 50]"
  have e: "?r = Inr (fst (projr ?r), snd (projr ?r))"
    by (simp add: model_fn_def Let_def)
  from eval_spec [THEN conjunct2, rule_format, OF e] e show ?thesis
    by (intro exI [of _ "fst (projr ?r)"] exI [of _ "snd (projr ?r)"]) auto
qed

section \<open>The hyperparameter bag\<close>

text \<open>
  C3, as stated, fails. The bag of the estimator the notebook creates has two entries,
  the widths of the two hidden layers; the batch size, the step budget and the checkpoint
  interval are not among its values.
\<close>

theorem hyperparameter_bag_counterexample:
  "map fst (modelFnParams (new_estimator 1)) = [''hidden1_units'', ''hidden2_units'']
   \<and> batchSize (new_estimator 1) \<notin> snd ` set (modelFnParams (new_estimator 1))
   \<and> maxSteps (new_estimator 1) \<notin> snd ` set (modelFnParams (new_estimator 1))
   \<and> saveCheckpointsSecs (new_estimator 1) \<notin> snd ` set (modelFnParams (new_estimator 1))"
  by (simp add: new_estimator_def)

text \<open>
  C3, amended. The bag is a flat mapping from names to integers that holds the widths of
  the two hidden layers, 100 and 50, and nothing else. The batch size 64, the step budget
  5000 and the checkpoint interval of 30 seconds are options of the estimator itself. The
  estimator hands the bag to the model function unchanged, and the model function reads
  the two widths from it: in mode \<open>PREDICT\<close> the logits are those of the inference network
  with 100 and 50 hidden units.
\<close>

theorem hyperparameter_bag:
  "modelFnParams (new_estimator n) = [(''hidden1_units'', 100), (''hidden2_units'', 50)]
   \<and> batchSize (new_estimator n) = 64
   \<and> maxSteps (new_estimator n) = 5000
   \<and> saveCheckpointsSecs (new_estimator n) = 30
   \<and> call_modelFn (new_estimator n) features labels m =
       model_fn n features labels m [''hidden1_units'' \<mapsto> 100, ''hidden2_units'' \<mapsto> 50]
   \<and> call_modelFn (new_estimator n) [''image'' \<mapsto> x] labels PREDICT =
       Inr (\<lparr>spec_mode = PREDICT,
             predictions = Some [(''classes'', ArgMax (Inference x 100 50) 1 ''classes_tensor''),
                                 (''probabilities'', Softmax (Inference x 100 50) ''softmax_tensor'')],
             loss = None, train_op = None, eval_metric_ops = None,
             export_outputs = Some [(DEFAULT_SERVING_SIGNATURE_DEF_KEY, PredictOutput
                                [(''classes'', ArgMax (Inference x 100 50) 1 ''classes_tensor''),
                                 (''probabilities'', Softmax (Inference x 100 50) ''softmax_tensor'')])],
             training_hooks = []\<rparr>,
            [TensorOp (Inference x 100 50),
             TensorOp (ArgMax (Inference x 100 50) 1 ''classes_tensor''),
             TensorOp (Softmax (Inference x 100 50) ''softmax_tensor'')])"
proof -
  have m: "map_of (modelFnParams (new_estimator n))
             = [''hidden1_units'' \<mapsto> 100, ''hidden2_units'' \<mapsto> 50]"
    by (rule ext) (simp add: new_estimator_def)
  have c: "call_modelFn (new_estimator n) f l md =
       model_fn n f l md [''hidden1_units'' \<mapsto> 100, ''hidden2_units'' \<mapsto> 50]" for f l md
    unfolding call_modelFn_def m by (simp add: new_estimator_def)
  show ?thesis
    unfolding c by (simp add: new_estimator_def model_fn_def Let_def)
qed

section \<open>The records of the table\<close>









section \<open>The validation column\<close>

lemma eval_isVal: "eval_column u isVal_column = VBool (4 / 5 < u)"
  by (simp add: isVal_column_def)

lemma index_of_absent: "name \<notin> fst ` set sch \<Longrightarrow> index_of name sch = length sch"
  unfolding index_of_def by (induction sch) auto

lemma withColumn_isVal:
  assumes "schema df = mnist_schema"
  shows "withColumn ''isVal'' isVal_column draw df =
           \<lparr>schema = mnist_schema @ [(''isVal'', BooleanType)],
            rows = map (\<lambda>(r, v). r @ [v])
                     (zip (rows df) (map (\<lambda>i. VBool (4 / 5 < draw i)) [0 ..< length (rows df)]))\<rparr>"
proof -
  have "index_of ''isVal'' (schema df) = length (schema df)"
    by (rule index_of_absent) (simp add: assms mnist_schema_def)
  moreover have "column_type isVal_column = BooleanType"
    by (simp add: isVal_column_def)
  ultimately show ?thesis
    by (simp add: withColumn_def Let_def eval_isVal assms)
qed

lemma frac_less: "((4 / 5) * x < y) = (4 * x < 5 * (y::rat))"
  by auto

lemma grid_mark:
  assumes "0 < N"
  shows "(eval_column (of_nat k / of_nat N) isVal_column = VBool True) = (4 * N < 5 * k)"
proof -
  have pos: "(0::rat) < of_nat N" using assms by simp
  have "(eval_column (of_nat k / of_nat N) isVal_column = VBool True)
          = (4 / 5 < (of_nat k :: rat) / of_nat N)"
    by (simp only: eval_isVal sval.inject eq_True)
  also have "\<dots> = ((4 / 5) * of_nat N < (of_nat k :: rat))"
    by (rule pos_less_divide_eq [OF pos])
  also have "\<dots> = (4 * of_nat N < 5 * (of_nat k :: rat))"
    by (rule frac_less)
  also have "\<dots> = ((of_nat (4 * N) :: rat) < of_nat (5 * k))"
    by (simp only: of_nat_mult of_nat_numeral)
  also have "\<dots> = (4 * N < 5 * k)"
    by (rule of_nat_less_iff)
  finally show ?thesis .
qed

lemma grid_set:
  "{k. k < N \<and> eval_column (of_nat k / of_nat N) isVal_column = VBool True}
     = {Suc ((4 * N) div 5) ..< N}"
proof (cases "N = 0")
  case True
  have "{k. k < (0::nat) \<and> P k} = {}" for P by simp
  then show ?thesis unfolding True by simp
next
  case False
  then have pos: "0 < N" by simp
  have "(k < N \<and> eval_column (of_nat k / of_nat N) isVal_column = VBool True)
          = (k \<in> {Suc ((4 * N) div 5) ..< N})" for k
    unfolding grid_mark [OF pos] by auto
  then show ?thesis by (simp only: Collect_mem_eq)
qed

lemma grid_count:
  assumes "0 < N"
  shows "5 * card {k. k < N \<and> eval_column (of_nat k / of_nat N) isVal_column = VBool True} < N
       \<and> N \<le> 5 * card {k. k < N \<and> eval_column (of_nat k / of_nat N) isVal_column = VBool True} + 5"
proof -
  define q where "q = 4 * N div 5"
  define r where "r = 4 * N mod 5"
  have e: "4 * N = 5 * q + r" unfolding q_def r_def by simp
  have r: "r < 5" unfolding r_def by simp
  from e r assms have "5 * (N - Suc q) < N \<and> N \<le> 5 * (N - Suc q) + 5" by linarith
  then show ?thesis unfolding grid_set q_def by simp
qed

text \<open>
  C1. For the table \<open>df\<close> the loader builds and any draws of \<open>rand()\<close>, the table with the
  column \<open>isVal\<close> has one more column, of Boolean type, and the same number of rows; row
  \<open>i\<close> is row \<open>i\<close> of \<open>df\<close> followed by a Boolean, never null, that is true exactly when the
  draw of row \<open>i\<close> exceeds 0.8; the marker of a row is the same under any other draws that
  agree on that row, so it does not depend on the other rows. For a draw uniform on the
  grid \<open>0/N, 1/N, ..., (N-1)/N\<close> of the unit interval the number \<open>c\<close> of draws marked
  validation satisfies \<open>5 c < N \<le> 5 c + 5\<close>: the probability \<open>c/N\<close> of validation lies in
  \<open>[1/5 - 1/N, 1/5)\<close> and that of training in \<open>(4/5, 4/5 + 1/N]\<close>.
\<close>

theorem validation_column:
  assumes "load_cell x y = Inr df"
  shows "schema (withColumn ''isVal'' isVal_column draw df)
           = mnist_schema @ [(''isVal'', BooleanType)]
       \<and> length (rows (withColumn ''isVal'' isVal_column draw df)) = length (rows df)
       \<and> (\<forall>i < length (rows df).
             rows (withColumn ''isVal'' isVal_column draw df) ! i
               = rows df ! i @ [VBool (4 / 5 < draw i)]
           \<and> cell (withColumn ''isVal'' isVal_column draw df) ''isVal''
                 (rows (withColumn ''isVal'' isVal_column draw df) ! i)
               = VBool (4 / 5 < draw i))
       \<and> (\<forall>draw' i. i < length (rows df) \<and> draw' i = draw i \<longrightarrow>
             rows (withColumn ''isVal'' isVal_column draw' df) ! i
               = rows (withColumn ''isVal'' isVal_column draw df) ! i)
       \<and> (\<forall>N > 0.
             5 * card {k. k < N \<and> eval_column (of_nat k / of_nat N) isVal_column = VBool True} < N
           \<and> N \<le> 5 * card {k. k < N \<and> eval_column (of_nat k / of_nat N) isVal_column = VBool True} + 5)"
proof -
  from assms obtain rs where df: "df = createDataFrame rs mnist_schema"
    by (auto simp: load_cell_def split: sum.splits)
  then have sch: "schema df = mnist_schema" by (simp add: createDataFrame_def)
  have len2: "length (rows df ! i) = 2" if "i < length (rows df)" for i
    using that df by (auto simp: createDataFrame_def split: prod.splits)
  note wc = withColumn_isVal [OF sch]
  have row: "rows (withColumn ''isVal'' isVal_column d df) ! i
               = rows df ! i @ [VBool (4 / 5 < d i)]" if "i < length (rows df)" for d i
    using that by (simp add: wc)
  have ix: "index_of ''isVal'' (mnist_schema @ [(''isVal'', BooleanType)]) = 2"
    by (simp add: index_of_def mnist_schema_def)
  have cl: "cell (withColumn ''isVal'' isVal_column draw df) ''isVal''
                 (rows (withColumn ''isVal'' isVal_column draw df) ! i)
               = VBool (4 / 5 < draw i)" if "i < length (rows df)" for i
    unfolding row [OF that] cell_def using len2 [OF that]
    by (simp add: wc ix Let_def nth_append)
  show ?thesis
  proof (intro conjI allI impI)
    show "schema (withColumn ''isVal'' isVal_column draw df)
            = mnist_schema @ [(''isVal'', BooleanType)]"
      unfolding wc by simp
    show "length (rows (withColumn ''isVal'' isVal_column draw df)) = length (rows df)"
      unfolding wc by simp
  next
    fix i assume "i < length (rows df)"
    then show "rows (withColumn ''isVal'' isVal_column draw df) ! i
                 = rows df ! i @ [VBool (4 / 5 < draw i)]"
      by (rule row)
  next
    fix i assume "i < length (rows df)"
    then show "cell (withColumn ''isVal'' isVal_column draw df) ''isVal''
                 (rows (withColumn ''isVal'' isVal_column draw df) ! i)
               = VBool (4 / 5 < draw i)"
      by (rule cl)
  next
    fix draw' i assume a: "i < length (rows df) \<and> draw' i = draw i"
    then have "rows (withColumn ''isVal'' isVal_column draw' df) ! i
                 = rows df ! i @ [VBool (4 / 5 < draw i)]"
      using row [of i draw'] by simp
    with a show "rows (withColumn ''isVal'' isVal_column draw' df) ! i
               = rows (withColumn ''isVal'' isVal_column draw df) ! i"
      using row [of i draw] by simp
  next
    fix N :: nat assume "0 < N"
    then show "5 * card {k. k < N \<and> eval_column (of_nat k / of_nat N) isVal_column = VBool True} < N"
      using grid_count by blast
  next
    fix N :: nat assume "0 < N"
    then show "N \<le> 5 * card {k. k < N \<and> eval_column (of_nat k / of_nat N) isVal_column = VBool True} + 5"
      using grid_count by blast
  qed
qed


theorem validation_column_witness:
  "load_cell \<lparr>shape = [2, 1, 1], buffer = [0, 255]\<rparr> [3, 9]
     = Inr \<lparr>schema = mnist_schema, rows = [[VArray [0], VLong 3], [VArray [255], VLong 9]]\<rparr>
   \<and> withColumn ''isVal'' isVal_column (\<lambda>i. if i = 0 then 9 / 10 else 1 / 2)
        \<lparr>schema = mnist_schema, rows = [[VArray [0], VLong 3], [VArray [255], VLong 9]]\<rparr>
     = \<lparr>schema = mnist_schema @ [(''isVal'', BooleanType)],
        rows = [[VArray [0], VLong 3, VBool True], [VArray [255], VLong 9, VBool False]]\<rparr>
   \<and> 5 * card {k. k < (10::nat) \<and> eval_column (of_nat k / of_nat 10) isVal_column = VBool True} < 10"
proof -
  let ?df = "\<lparr>schema = mnist_schema, rows = [[VArray [0], VLong 3], [VArray [255], VLong 9]]\<rparr>"
  let ?draw = "\<lambda>i::nat. if i = 0 then 9 / 10 else (1 / 2 :: rat)"
  have ld: "load_cell \<lparr>shape = [2, 1, 1], buffer = [0, 255]\<rparr> [3, 9] = Inr ?df"
    by (simp add: load_cell_def reshape_rows_def row_at_def createDataFrame_def)
  note v = validation_column [OF ld, of ?draw]
  note rowsv = v [THEN conjunct2, THEN conjunct2, THEN conjunct1, rule_format]
  from v have s: "schema (withColumn ''isVal'' isVal_column ?draw ?df)
           = mnist_schema @ [(''isVal'', BooleanType)]" by (rule conjunct1)
  from v [THEN conjunct2, THEN conjunct1]
  have l: "length (rows (withColumn ''isVal'' isVal_column ?draw ?df)) = 2" by simp
  from rowsv [of 0] have r0: "rows (withColumn ''isVal'' isVal_column ?draw ?df) ! 0
                     = [VArray [0], VLong 3, VBool True]" by simp
  from rowsv [of 1] have r1: "rows (withColumn ''isVal'' isVal_column ?draw ?df) ! 1
                     = [VArray [255], VLong 9, VBool False]" by simp
  from l r0 r1 have r: "rows (withColumn ''isVal'' isVal_column ?draw ?df)
           = [[VArray [0], VLong 3, VBool True], [VArray [255], VLong 9, VBool False]]"
    by (simp add: list_eq_iff_nth_eq nth_Cons' less_Suc_eq numeral_2_eq_2)
  from v [THEN conjunct2, THEN conjunct2, THEN conjunct2, THEN conjunct2, rule_format, of 10]
  have c: "5 * card {k. k < (10::nat)
      \<and> eval_column (of_nat k / of_nat 10) isVal_column = VBool True} < 10"
    by simp
  from s r have "withColumn ''isVal'' isVal_column ?draw ?df
     = \<lparr>schema = mnist_schema @ [(''isVal'', BooleanType)],
        rows = [[VArray [0], VLong 3, VBool True], [VArray [255], VLong 9, VBool False]]\<rparr>"
    by (cases "withColumn ''isVal'' isVal_column ?draw ?df") simp
  with ld c show ?thesis by simp
qed

section \<open>The file systems and the pipeline\<close>

lemma content_filter:
  "content (filter (\<lambda>f. P (fst f)) fsys) p = (if P p then content fsys p else None)"
  unfolding content_def by (induction fsys) auto

lemma resolve_cleanup: "resolve (drop 5 model_dir) = (DBFS, [''horovod_estimator''])"
  by (simp add: model_dir_def resolve_def components_def)

lemma resolve_copy_from:
  "resolve ''file:/tmp/horovod_estimator/'' = (LocalFile, [''tmp'', ''horovod_estimator''])"
  by (simp add: resolve_def components_def)

lemma resolve_copy_to: "resolve ''dbfs:/horovod_estimator/'' = (DBFS, [''horovod_estimator''])"
  by (simp add: resolve_def components_def)

lemma local_model_dir: "local_path model_dir = (LocalFile, [''tmp'', ''horovod_estimator''])"
  by (simp add: model_dir_def local_path_def components_def)

lemma rm_recurse:
  "dbutils_fs_rm s True fs0 = Inr (filter (\<lambda>f. \<not> under (resolve s) (fst f)) fs0)"
  by (simp add: dbutils_fs_rm_def Let_def)

lemma relocate_inj:
  assumes "under src p" "under src q" "relocate src dst p = relocate src dst q"
  shows "p = q"
proof -
  from assms(1) obtain a where a: "snd p = snd src @ a" and fp: "fst p = fst src"
    by (auto simp: under_def prefix_def)
  from assms(2) obtain b where b: "snd q = snd src @ b" and fq: "fst q = fst src"
    by (auto simp: under_def prefix_def)
  from assms(3) a b have "a = b" by (simp add: relocate_def)
  with a b fp fq show ?thesis by (simp add: prod_eq_iff)
qed

lemma map_of_copies:
  assumes "under src p"
  shows "map_of (map (\<lambda>f. (relocate src dst (fst f), snd f))
                  (filter (\<lambda>f. under src (fst f)) fs0)) (relocate src dst p)
           = map_of fs0 p"
proof (induction fs0)
  case Nil
  then show ?case by simp
next
  case (Cons f fs0)
  show ?case
  proof (cases "under src (fst f)")
    case True
    with assms have "(relocate src dst (fst f) = relocate src dst p) = (fst f = p)"
      by (auto dest: relocate_inj)
    with True Cons.IH show ?thesis by (cases f) auto
  next
    case False
    with assms have "fst f \<noteq> p" by auto
    with False Cons.IH show ?thesis by (cases f) auto
  qed
qed

lemma map_of_copies_outside:
  assumes "\<not> under dst p"
  shows "map_of (map (\<lambda>f. (relocate src dst (fst f), snd f)) cs) p = None"
  using assms by (induction cs) (auto simp: relocate_def under_def)

lemma cp_recurse:
  "dbutils_fs_cp from to True fs0 =
     Inr (map (\<lambda>f. (relocate (resolve from) (resolve to) (fst f), snd f))
              (filter (\<lambda>f. under (resolve from) (fst f)) fs0)
          @ filter (\<lambda>f. fst f \<notin> set (map fst
                (map (\<lambda>f. (relocate (resolve from) (resolve to) (fst f), snd f))
              (filter (\<lambda>f. under (resolve from) (fst f)) fs0)))) fs0)"
  by (simp only: dbutils_fs_cp_def Let_def not_True_eq_False simp_thms if_False)

lemma cp_copied:
  assumes "dbutils_fs_cp from to True fs0 = Inr fs1" "under (resolve from) p"
    "content fs0 p = Some c"
  shows "content fs1 (relocate (resolve from) (resolve to) p) = Some c"
  using assms map_of_copies [OF assms(2), of "resolve to" fs0]
  unfolding cp_recurse content_def
  by (auto simp: map_of_append map_add_def)

lemma cp_other_scheme:
  assumes "dbutils_fs_cp from to True fs0 = Inr fs1" "\<not> under (resolve to) p"
  shows "content fs1 p = content fs0 p"
proof -
  let ?cs = "map (\<lambda>f. (relocate (resolve from) (resolve to) (fst f), snd f))
              (filter (\<lambda>f. under (resolve from) (fst f)) fs0)"
  have n: "map_of ?cs p = None" by (rule map_of_copies_outside [OF assms(2)])
  then have "p \<notin> fst ` set ?cs" by (simp add: map_of_eq_None_iff del: set_map set_filter)
  then have "p \<notin> set (map fst ?cs)" by (simp add: image_image)
  then have "content (filter (\<lambda>f. fst f \<notin> set (map fst ?cs)) fs0) p = content fs0 p"
    using content_filter [of "\<lambda>q. q \<notin> set (map fst ?cs)" fs0 p] by simp
  with n assms(1) show ?thesis
    unfolding cp_recurse content_def by (auto simp: map_of_append map_add_def)
qed


lemma drop_model_dir: "drop 5 model_dir = ''horovod_estimator''"
  by (simp add: model_dir_def)

lemma notebook_unfold:
  "notebook fw fs0 =
    (case load_cell (fst (mnist_train fw)) (snd (mnist_train fw)) of
       Inl e \<Rightarrow> Inl e
     | Inr df \<Rightarrow>
    (case dbutils_fs_rm (drop 5 model_dir) True fs0 of
       Inl e \<Rightarrow> Inl e
     | Inr f1 \<Rightarrow>
    (case fit_impl fw (new_estimator (hvd_size fw))
             (withColumn ''isVal'' isVal_column (rand_draw fw) df) f1 of
       Inl e \<Rightarrow> Inl e
     | Inr (t, f2) \<Rightarrow>
    (case transform_impl fw t df f2 of
       Inl e \<Rightarrow> Inl e
     | Inr res \<Rightarrow>
    (case fit_impl fw ((new_estimator (hvd_size fw))\<lparr>maxSteps := 10000\<rparr>)
             (withColumn ''isVal'' isVal_column (rand_draw fw) df) f2 of
       Inl e \<Rightarrow> Inl e
     | Inr (t', f3) \<Rightarrow>
    (case transform_impl fw t df f3 of
       Inl e \<Rightarrow> Inl e
     | Inr res' \<Rightarrow>
    (case dbutils_fs_cp ''file:/tmp/horovod_estimator/'' ''dbfs:/horovod_estimator/'' True f3 of
       Inl e \<Rightarrow> Inl e
     | Inr f4 \<Rightarrow>
         Inr \<lparr>out_df = df, out_est = (new_estimator (hvd_size fw))\<lparr>maxSteps := 10000\<rparr>,
              out_df_with_val = withColumn ''isVal'' isVal_column (rand_draw fw) df,
              out_transformer = t, out_res = res,
              out_new_transformer = t', out_new_res = res',
              out_state = \<lparr>fs = sh_rm_rf ''/tmp/horovod_estimator'' f4,
                             trace =
     [EvLoadData ''/tmp/mnist'', EvCreateDataFrame, EvDisplay df, EvHelp,
      EvFsRm ''horovod_estimator'' True,
      EvFit (new_estimator (hvd_size fw)) (withColumn ''isVal'' isVal_column (rand_draw fw) df),
      EvTransform t df, EvDisplay res, EvSetMaxSteps 10000,
      EvFit ((new_estimator (hvd_size fw))\<lparr>maxSteps := 10000\<rparr>)
            (withColumn ''isVal'' isVal_column (rand_draw fw) df),
      EvTransform t df, EvDisplay res',
      EvFsCp ''file:/tmp/horovod_estimator/'' ''dbfs:/horovod_estimator/'' True,
      EvSh ''ls -ltr /tmp/horovod_estimator'', EvFsLs ''dbfs:/horovod_estimator/'',
      EvSh ''rm -rf /tmp/horovod_estimator'', EvSh ''ls -ltr /tmp/horovod_estimator'']\<rparr>\<rparr>)))))))"
  unfolding notebook_def cleanup_cell_def copy_cell_def call_fs_rm_def call_fs_cp_def
    call_fit_def call_transform_def and_then_def emit_def Let_def
    drop_model_dir
  by (simp split: sum.splits prod.splits)


lemma notebook_Inr:
  assumes "notebook fw fs0 = Inr oc"
  obtains df f1 t f2 res t' f3 res' f4 where
    "load_cell (fst (mnist_train fw)) (snd (mnist_train fw)) = Inr df"
    "dbutils_fs_rm (drop 5 model_dir) True fs0 = Inr f1"
    "fit_impl fw (new_estimator (hvd_size fw))
       (withColumn ''isVal'' isVal_column (rand_draw fw) df) f1 = Inr (t, f2)"
    "transform_impl fw t df f2 = Inr res"
    "fit_impl fw ((new_estimator (hvd_size fw))\<lparr>maxSteps := 10000\<rparr>)
       (withColumn ''isVal'' isVal_column (rand_draw fw) df) f2 = Inr (t', f3)"
    "transform_impl fw t df f3 = Inr res'"
    "dbutils_fs_cp ''file:/tmp/horovod_estimator/'' ''dbfs:/horovod_estimator/'' True f3 = Inr f4"
    "oc = \<lparr>out_df = df, out_est = (new_estimator (hvd_size fw))\<lparr>maxSteps := 10000\<rparr>,
              out_df_with_val = withColumn ''isVal'' isVal_column (rand_draw fw) df,
              out_transformer = t, out_res = res,
              out_new_transformer = t', out_new_res = res',
              out_state = \<lparr>fs = sh_rm_rf ''/tmp/horovod_estimator'' f4,
                             trace =
     [EvLoadData ''/tmp/mnist'', EvCreateDataFrame, EvDisplay df, EvHelp,
      EvFsRm ''horovod_estimator'' True,
      EvFit (new_estimator (hvd_size fw)) (withColumn ''isVal'' isVal_column (rand_draw fw) df),
      EvTransform t df, EvDisplay res, EvSetMaxSteps 10000,
      EvFit ((new_estimator (hvd_size fw))\<lparr>maxSteps := 10000\<rparr>)
            (withColumn ''isVal'' isVal_column (rand_draw fw) df),
      EvTransform t df, EvDisplay res',
      EvFsCp ''file:/tmp/horovod_estimator/'' ''dbfs:/horovod_estimator/'' True,
      EvSh ''ls -ltr /tmp/horovod_estimator'', EvFsLs ''dbfs:/horovod_estimator/'',
      EvSh ''rm -rf /tmp/horovod_estimator'', EvSh ''ls -ltr /tmp/horovod_estimator'']\<rparr>\<rparr>"
  using assms unfolding notebook_unfold
  by (auto split: sum.splits prod.splits)

lemma sample_load:
  "load_cell (fst (mnist_train sample_framework)) (snd (mnist_train sample_framework))
     = Inr \<lparr>schema = mnist_schema, rows = [[VArray (replicate 784 0), VLong 3]]\<rparr>"
  by (simp add: sample_framework_def load_cell_def reshape_rows_def row_at_def
        createDataFrame_def)

lemma sample_with_val:
  "withColumn ''isVal'' isVal_column (rand_draw sample_framework)
      \<lparr>schema = mnist_schema, rows = [[VArray (replicate 784 0), VLong 3]]\<rparr>
     = \<lparr>schema = mnist_schema @ [(''isVal'', BooleanType)],
        rows = [[VArray (replicate 784 0), VLong 3, VBool True]]\<rparr>"
  by (subst withColumn_isVal) (simp_all add: sample_framework_def)

lemma sample_rm:
  "dbutils_fs_rm (drop 5 model_dir) True sample_store
     = Inr [((LocalFile, [''tmp'', ''horovod_estimator'', ''events'']), ''old'')]"
  unfolding rm_recurse resolve_cleanup by (simp add: sample_store_def under_def)

lemma sample_cp:
  "dbutils_fs_cp ''file:/tmp/horovod_estimator/'' ''dbfs:/horovod_estimator/'' True
     [((LocalFile, [''tmp'', ''horovod_estimator'', ''checkpoint'']), ''model.ckpt-10000''),
      ((LocalFile, [''tmp'', ''horovod_estimator'', ''events'']), ''old'')]
   = Inr [((DBFS, [''horovod_estimator'', ''checkpoint'']), ''model.ckpt-10000''),
          ((DBFS, [''horovod_estimator'', ''events'']), ''old''),
          ((LocalFile, [''tmp'', ''horovod_estimator'', ''checkpoint'']), ''model.ckpt-10000''),
          ((LocalFile, [''tmp'', ''horovod_estimator'', ''events'']), ''old'')]"
  unfolding cp_recurse resolve_copy_from resolve_copy_to
  by (simp add: under_def relocate_def)

lemma sample_fit:
  "fit_impl sample_framework est df f0 =
     Inr (maxSteps est,
          ((LocalFile, [''tmp'', ''horovod_estimator'', ''checkpoint'']),
           if maxSteps est = 5000 then ''model.ckpt-5000'' else ''model.ckpt-10000'')
          # filter (\<lambda>g. fst g \<noteq> (LocalFile, [''tmp'', ''horovod_estimator'', ''checkpoint''])) f0)"
  by (simp add: sample_framework_def)

lemma sample_transform:
  "transform_impl sample_framework t df f0 =
     Inr \<lparr>schema = schema df @ [(''classes'', LongType)],
          rows = map (\<lambda>r. r @ [VLong t]) (rows df)\<rparr>"
  by (simp add: sample_framework_def)

lemma sample_run: "notebook sample_framework sample_store = Inr sample_outcome"
proof -
  have h: "hvd_size sample_framework = 2" by (simp add: sample_framework_def)
  have m: "maxSteps (new_estimator 2) = 5000" by (simp add: new_estimator_def)
  have l: "sh_rm_rf ''/tmp/horovod_estimator''
         [((DBFS, [''horovod_estimator'', ''checkpoint'']), ''model.ckpt-10000''),
          ((DBFS, [''horovod_estimator'', ''events'']), ''old''),
          ((LocalFile, [''tmp'', ''horovod_estimator'', ''checkpoint'']), ''model.ckpt-10000''),
          ((LocalFile, [''tmp'', ''horovod_estimator'', ''events'']), ''old'')]
       = [((DBFS, [''horovod_estimator'', ''checkpoint'']), ''model.ckpt-10000''),
          ((DBFS, [''horovod_estimator'', ''events'']), ''old'')]"
    using local_model_dir by (simp add: sh_rm_rf_def model_dir_def under_def)
  show ?thesis
    by (simp add: notebook_unfold sample_load sample_with_val sample_rm h sample_fit
          sample_transform sample_cp m l sample_outcome_def)
qed

lemma copy_cell_unfold:
  "copy_cell s =
     (case dbutils_fs_cp ''file:/tmp/horovod_estimator/'' ''dbfs:/horovod_estimator/'' True (fs s) of
        Inl e \<Rightarrow> Inl e
      | Inr f \<Rightarrow> Inr \<lparr>fs = f, trace = trace s @
          [EvFsCp ''file:/tmp/horovod_estimator/'' ''dbfs:/horovod_estimator/'' True]\<rparr>)"
  by (cases s) (simp add: copy_cell_def call_fs_cp_def and_then_def emit_def split: sum.splits)

lemma resolve_relative: "resolve ''horovod_estimator'' = (DBFS, [''horovod_estimator''])"
  by (simp add: resolve_def components_def)

lemma cleanup_cell_unfold:
  "cleanup_cell s =
     Inr \<lparr>fs = filter (\<lambda>f. \<not> under (DBFS, [''horovod_estimator'']) (fst f)) (fs s),
          trace = trace s @ [EvFsRm ''horovod_estimator'' True]\<rparr>"
  by (cases s)
    (simp add: cleanup_cell_def call_fs_rm_def and_then_def emit_def rm_recurse
       resolve_relative drop_model_dir)

lemma filter_local_rm:
  "filter (\<lambda>f. fst (fst f) = LocalFile)
      (filter (\<lambda>f. \<not> under (DBFS, d) (fst f)) fsys)
     = filter (\<lambda>f. fst (fst f) = LocalFile) fsys"
  by (induction fsys) (auto simp: under_def)

lemma content_rm:
  "content (filter (\<lambda>f. \<not> under d (fst f)) fsys) p
     = (if under d p then None else content fsys p)"
  using content_filter [of "\<lambda>q. \<not> under d q" fsys p] by simp

lemma local_not_under_dbfs: "fst p = LocalFile \<Longrightarrow> \<not> under (DBFS, d) p"
  by (simp add: under_def)

text \<open>
  C9. The path the cleanup deletes is the checkpoint path without its first five
  characters, \<open>horovod_estimator\<close>, which \<open>dbutils.fs\<close> reads from the root of the distributed
  file system, while the estimator writes its checkpoints to the local directory
  \<open>/tmp/horovod_estimator\<close>. The cleanup always succeeds, removes what is below
  \<open>dbfs:/horovod_estimator\<close> and nothing else, and leaves every local file as it was; in a run
  of the notebook the first fit starts from that store.
\<close>

theorem cleanup_path:
  "drop 5 model_dir = ''horovod_estimator''
   \<and> modelDir (new_estimator n) = ''/tmp/horovod_estimator''
   \<and> resolve (drop 5 model_dir) = (DBFS, [''horovod_estimator''])
   \<and> local_path (modelDir (new_estimator n)) = (LocalFile, [''tmp'', ''horovod_estimator''])
   \<and> cleanup_cell s =
        Inr \<lparr>fs = filter (\<lambda>f. \<not> under (DBFS, [''horovod_estimator'']) (fst f)) (fs s),
             trace = trace s @ [EvFsRm ''horovod_estimator'' True]\<rparr>
   \<and> (\<forall>s'. cleanup_cell s = Inr s' \<longrightarrow>
          (\<forall>p. fst p = LocalFile \<longrightarrow> content (fs s') p = content (fs s) p)
        \<and> (\<forall>p. under (DBFS, [''horovod_estimator'']) p \<longrightarrow> content (fs s') p = None)
        \<and> (\<forall>p. \<not> under (DBFS, [''horovod_estimator'']) p \<longrightarrow>
               content (fs s') p = content (fs s) p)
        \<and> filter (\<lambda>f. fst (fst f) = LocalFile) (fs s')
             = filter (\<lambda>f. fst (fst f) = LocalFile) (fs s))
   \<and> (\<forall>fw fs0 oc. notebook fw fs0 = Inr oc \<longrightarrow>
          (\<exists>f1 f2. fit_impl fw (new_estimator (hvd_size fw)) (out_df_with_val oc) f1
                      = Inr (out_transformer oc, f2)
            \<and> f1 = filter (\<lambda>f. \<not> under (DBFS, [''horovod_estimator'']) (fst f)) fs0
            \<and> (\<forall>p. fst p = LocalFile \<longrightarrow> content f1 p = content fs0 p)))"
proof (intro conjI allI impI)
  show "drop 5 model_dir = ''horovod_estimator''" by (rule drop_model_dir)
  show "modelDir (new_estimator n) = ''/tmp/horovod_estimator''"
    by (simp add: new_estimator_def model_dir_def)
  show "resolve (drop 5 model_dir) = (DBFS, [''horovod_estimator''])" by (rule resolve_cleanup)
  show "local_path (modelDir (new_estimator n)) = (LocalFile, [''tmp'', ''horovod_estimator''])"
    using local_model_dir by (simp add: new_estimator_def)
  show "cleanup_cell s =
        Inr \<lparr>fs = filter (\<lambda>f. \<not> under (DBFS, [''horovod_estimator'']) (fst f)) (fs s),
             trace = trace s @ [EvFsRm ''horovod_estimator'' True]\<rparr>"
    by (rule cleanup_cell_unfold)
next
  fix s' and p :: path assume "cleanup_cell s = Inr s'" "fst p = LocalFile"
  then show "content (fs s') p = content (fs s) p"
    unfolding cleanup_cell_unfold by (auto simp: content_rm local_not_under_dbfs)
next
  fix s' p assume "cleanup_cell s = Inr s'" "under (DBFS, [''horovod_estimator'']) p"
  then show "content (fs s') p = None"
    unfolding cleanup_cell_unfold by (auto simp: content_rm)
next
  fix s' p assume "cleanup_cell s = Inr s'" "\<not> under (DBFS, [''horovod_estimator'']) p"
  then show "content (fs s') p = content (fs s) p"
    unfolding cleanup_cell_unfold by (auto simp: content_rm)
next
  fix s' assume "cleanup_cell s = Inr s'"
  then show "filter (\<lambda>f. fst (fst f) = LocalFile) (fs s')
             = filter (\<lambda>f. fst (fst f) = LocalFile) (fs s)"
    unfolding cleanup_cell_unfold using filter_local_rm [of "[''horovod_estimator'']" "fs s"]
    by (auto simp del: filter_filter)
next
  fix fw :: "'b framework" and fs0 oc
  assume nb: "notebook fw fs0 = Inr oc"
  then obtain df f1 t f2 where
    rm: "dbutils_fs_rm (drop 5 model_dir) True fs0 = Inr f1"
    and fit: "fit_impl fw (new_estimator (hvd_size fw))
       (withColumn ''isVal'' isVal_column (rand_draw fw) df) f1 = Inr (t, f2)"
    and oc: "out_transformer oc = t"
      "out_df_with_val oc = withColumn ''isVal'' isVal_column (rand_draw fw) df"
    by (elim notebook_Inr) simp
  from rm have f1: "f1 = filter (\<lambda>f. \<not> under (DBFS, [''horovod_estimator'']) (fst f)) fs0"
    unfolding rm_recurse resolve_cleanup by simp
  have "content f1 p = content fs0 p" if "fst p = LocalFile" for p :: path
    unfolding f1 using that by (simp add: content_rm local_not_under_dbfs)
  with fit oc f1
  show "\<exists>f1 f2. fit_impl fw (new_estimator (hvd_size fw)) (out_df_with_val oc) f1
                      = Inr (out_transformer oc, f2)
            \<and> f1 = filter (\<lambda>f. \<not> under (DBFS, [''horovod_estimator'']) (fst f)) fs0
            \<and> (\<forall>p. fst p = LocalFile \<longrightarrow> content f1 p = content fs0 p)"
    by auto
qed

theorem cleanup_path_witness:
  "notebook sample_framework sample_store = Inr sample_outcome
   \<and> cleanup_cell \<lparr>fs = sample_store, trace = [] :: int event list\<rparr>
       = Inr \<lparr>fs = [((LocalFile, [''tmp'', ''horovod_estimator'', ''events'']), ''old'')],
              trace = [EvFsRm ''horovod_estimator'' True]\<rparr>
   \<and> content sample_store (LocalFile, [''tmp'', ''horovod_estimator'', ''events'']) = Some ''old''
   \<and> content [((LocalFile, [''tmp'', ''horovod_estimator'', ''events'']), ''old'')]
         (LocalFile, [''tmp'', ''horovod_estimator'', ''events'']) = Some ''old''
   \<and> content sample_store (DBFS, [''horovod_estimator'', ''checkpoint'']) = Some ''stale''
   \<and> content [((LocalFile, [''tmp'', ''horovod_estimator'', ''events'']), ''old'')]
         (DBFS, [''horovod_estimator'', ''checkpoint'']) = None"
proof -
  let ?s = "\<lparr>fs = sample_store, trace = [] :: int event list\<rparr>"
  let ?s' = "\<lparr>fs = [((LocalFile, [''tmp'', ''horovod_estimator'', ''events'']), ''old'')],
              trace = [EvFsRm ''horovod_estimator'' True :: int event]\<rparr>"
  note c = cleanup_path [of 2 ?s]
  from c [THEN conjunct2, THEN conjunct2, THEN conjunct2, THEN conjunct2, THEN conjunct1]
  have r: "cleanup_cell ?s = Inr ?s'"
    by (simp add: sample_store_def under_def)
  from c [THEN conjunct2, THEN conjunct2, THEN conjunct2, THEN conjunct2, THEN conjunct2,
          THEN conjunct1, rule_format, OF r]
  have k: "\<forall>p :: path. fst p = LocalFile \<longrightarrow> content (fs ?s') p = content (fs ?s) p"
    and d: "\<forall>p :: path. under (DBFS, [''horovod_estimator'']) p \<longrightarrow> content (fs ?s') p = None"
    by blast+
  have a: "content sample_store (LocalFile, [''tmp'', ''horovod_estimator'', ''events''])
             = Some ''old''"
    by (simp add: sample_store_def content_def)
  have b: "content sample_store (DBFS, [''horovod_estimator'', ''checkpoint'']) = Some ''stale''"
    by (simp add: sample_store_def content_def)
  from k a have a': "content [((LocalFile, [''tmp'', ''horovod_estimator'', ''events'']), ''old'')]
         (LocalFile, [''tmp'', ''horovod_estimator'', ''events'']) = Some ''old''"
    by simp
  from d have b': "content [((LocalFile, [''tmp'', ''horovod_estimator'', ''events'']), ''old'')]
         (DBFS, [''horovod_estimator'', ''checkpoint'']) = None"
    by (simp add: under_def)
  from sample_run r a a' b b' show ?thesis by (intro conjI)
qed


lemma with_refit_fields:
  "hvd_size (with_refit_result fw t0) = hvd_size fw"
  "mnist_train (with_refit_result fw t0) = mnist_train fw"
  "rand_draw (with_refit_result fw t0) = rand_draw fw"
  "transform_impl (with_refit_result fw t0) = transform_impl fw"
  "fit_impl (with_refit_result fw t0) (new_estimator n) df f = fit_impl fw (new_estimator n) df f"
  "fit_impl (with_refit_result fw t0) ((new_estimator n)\<lparr>maxSteps := 10000\<rparr>) df f
     = and_then (fit_impl fw ((new_estimator n)\<lparr>maxSteps := 10000\<rparr>) df f)
         (\<lambda>(t1, f'). Inr (t0, f'))"
  by (simp_all add: with_refit_result_def new_estimator_def)

text \<open>
  C10. In every run that reaches its end, both displayed predictions are \<open>transform\<close> of
  the transformer the first fit returned, applied to the loaded table: the first on the
  store the first fit left, the second on the store the refit left. No call of
  \<open>transform\<close> has the refit's transformer as its argument. If the refit returns any other
  transformer \<open>t0\<close> and the libraries are otherwise the same, the run ends with the same
  outcome, the same second prediction in particular, except for the variable
  \<open>new_transformer\<close>.
\<close>

theorem second_transform:
  assumes "notebook fw fs0 = Inr oc"
  shows "(\<exists>f1 f2 f3.
            fit_impl fw (new_estimator (hvd_size fw)) (out_df_with_val oc) f1
              = Inr (out_transformer oc, f2)
          \<and> transform_impl fw (out_transformer oc) (out_df oc) f2 = Inr (out_res oc)
          \<and> fit_impl fw (out_est oc) (out_df_with_val oc) f2 = Inr (out_new_transformer oc, f3)
          \<and> transform_impl fw (out_transformer oc) (out_df oc) f3 = Inr (out_new_res oc))
       \<and> filter is_transform (trace (out_state oc))
            = [EvTransform (out_transformer oc) (out_df oc),
               EvTransform (out_transformer oc) (out_df oc)]
       \<and> (\<forall>t0. \<exists>oc'. notebook (with_refit_result fw t0) fs0 = Inr oc'
              \<and> out_new_transformer oc' = t0
              \<and> out_transformer oc' = out_transformer oc
              \<and> out_new_res oc' = out_new_res oc
              \<and> oc' = oc\<lparr>out_new_transformer := t0\<rparr>)"
proof -
  from assms obtain df f1 t f2 res t' f3 res' f4 where
    ld: "load_cell (fst (mnist_train fw)) (snd (mnist_train fw)) = Inr df"
    and rm: "dbutils_fs_rm (drop 5 model_dir) True fs0 = Inr f1"
    and fit1: "fit_impl fw (new_estimator (hvd_size fw))
       (withColumn ''isVal'' isVal_column (rand_draw fw) df) f1 = Inr (t, f2)"
    and tr1: "transform_impl fw t df f2 = Inr res"
    and fit2: "fit_impl fw ((new_estimator (hvd_size fw))\<lparr>maxSteps := 10000\<rparr>)
       (withColumn ''isVal'' isVal_column (rand_draw fw) df) f2 = Inr (t', f3)"
    and tr2: "transform_impl fw t df f3 = Inr res'"
    and cp: "dbutils_fs_cp ''file:/tmp/horovod_estimator/'' ''dbfs:/horovod_estimator/'' True f3
              = Inr f4"
    and oc: "oc = \<lparr>out_df = df, out_est = (new_estimator (hvd_size fw))\<lparr>maxSteps := 10000\<rparr>,
              out_df_with_val = withColumn ''isVal'' isVal_column (rand_draw fw) df,
              out_transformer = t, out_res = res,
              out_new_transformer = t', out_new_res = res',
              out_state = \<lparr>fs = sh_rm_rf ''/tmp/horovod_estimator'' f4,
                             trace =
     [EvLoadData ''/tmp/mnist'', EvCreateDataFrame, EvDisplay df, EvHelp,
      EvFsRm ''horovod_estimator'' True,
      EvFit (new_estimator (hvd_size fw)) (withColumn ''isVal'' isVal_column (rand_draw fw) df),
      EvTransform t df, EvDisplay res, EvSetMaxSteps 10000,
      EvFit ((new_estimator (hvd_size fw))\<lparr>maxSteps := 10000\<rparr>)
            (withColumn ''isVal'' isVal_column (rand_draw fw) df),
      EvTransform t df, EvDisplay res',
      EvFsCp ''file:/tmp/horovod_estimator/'' ''dbfs:/horovod_estimator/'' True,
      EvSh ''ls -ltr /tmp/horovod_estimator'', EvFsLs ''dbfs:/horovod_estimator/'',
      EvSh ''rm -rf /tmp/horovod_estimator'', EvSh ''ls -ltr /tmp/horovod_estimator'']\<rparr>\<rparr>"
    by (rule notebook_Inr)
  have a: "\<exists>f1 f2 f3.
            fit_impl fw (new_estimator (hvd_size fw)) (out_df_with_val oc) f1
              = Inr (out_transformer oc, f2)
          \<and> transform_impl fw (out_transformer oc) (out_df oc) f2 = Inr (out_res oc)
          \<and> fit_impl fw (out_est oc) (out_df_with_val oc) f2 = Inr (out_new_transformer oc, f3)
          \<and> transform_impl fw (out_transformer oc) (out_df oc) f3 = Inr (out_new_res oc)"
    using fit1 tr1 fit2 tr2 unfolding oc by auto
  have b: "filter is_transform (trace (out_state oc))
            = [EvTransform (out_transformer oc) (out_df oc),
               EvTransform (out_transformer oc) (out_df oc)]"
    unfolding oc by simp
  have c: "\<exists>oc'. notebook (with_refit_result fw t0) fs0 = Inr oc'
              \<and> out_new_transformer oc' = t0
              \<and> out_transformer oc' = out_transformer oc
              \<and> out_new_res oc' = out_new_res oc
              \<and> oc' = oc\<lparr>out_new_transformer := t0\<rparr>" for t0
    unfolding oc
    by (simp add: notebook_unfold with_refit_fields ld rm fit1 tr1 fit2 tr2 cp and_then_def)
  from a b c show ?thesis by blast
qed


theorem second_transform_witness:
  "notebook sample_framework sample_store = Inr sample_outcome
   \<and> out_transformer sample_outcome = 5000
   \<and> out_new_transformer sample_outcome = 10000
   \<and> filter is_transform (trace (out_state sample_outcome))
       = [EvTransform 5000 (out_df sample_outcome), EvTransform 5000 (out_df sample_outcome)]
   \<and> transform_impl sample_framework 5000 (out_df sample_outcome)
         [((LocalFile, [''tmp'', ''horovod_estimator'', ''checkpoint'']), ''model.ckpt-10000''),
          ((LocalFile, [''tmp'', ''horovod_estimator'', ''events'']), ''old'')]
       = Inr (out_new_res sample_outcome)
   \<and> notebook (with_refit_result sample_framework 77) sample_store
       = Inr (sample_outcome\<lparr>out_new_transformer := 77\<rparr>)"
proof -
  note st = second_transform [OF sample_run]
  have a: "out_transformer sample_outcome = 5000" "out_new_transformer sample_outcome = 10000"
    by (simp_all add: sample_outcome_def)
  from st have b: "filter is_transform (trace (out_state sample_outcome))
       = [EvTransform 5000 (out_df sample_outcome), EvTransform 5000 (out_df sample_outcome)]"
    unfolding a by (rule conjunct2 [THEN conjunct1])
  have c: "transform_impl sample_framework 5000 (out_df sample_outcome)
         [((LocalFile, [''tmp'', ''horovod_estimator'', ''checkpoint'']), ''model.ckpt-10000''),
          ((LocalFile, [''tmp'', ''horovod_estimator'', ''events'']), ''old'')]
       = Inr (out_new_res sample_outcome)"
    by (simp add: sample_transform sample_outcome_def)
  from st [THEN conjunct2, THEN conjunct2, rule_format, of 77]
  have d: "notebook (with_refit_result sample_framework 77) sample_store
       = Inr (sample_outcome\<lparr>out_new_transformer := 77\<rparr>)"
    by auto
  from sample_run a b c d show ?thesis by (intro conjI)
qed

section \<open>The order of the stages and the copy\<close>

text \<open>
  C6. Every run of the notebook that reaches its end has run the stages in this order,
  each on what the stage before left: the loader, the cleanup, \<open>fit\<close> of the estimator with
  the step budget 5000 on the table with the validation column, \<open>transform\<close> of the loaded
  table by the transformer of that fit, \<open>fit\<close> of the same estimator with its step budget set
  to 10000, which is larger, on the store the first fit left, \<open>transform\<close> again on the store
  the second fit left, the copy and the shell cells; the calls it has made are exactly the
  listed ones. Conversely, when every one of these calls succeeds the run reaches its end
  with their results. When the first fit, the first transform, the second fit or the
  second transform fails, the run ends with that error: no stage is retried, skipped or
  reordered.
\<close>

theorem pipeline_order:
  "(\<forall>oc. notebook fw fs0 = Inr oc \<longrightarrow>
      (\<exists>f1 f2 f3 f4.
          load_cell (fst (mnist_train fw)) (snd (mnist_train fw)) = Inr (out_df oc)
        \<and> out_df_with_val oc = withColumn ''isVal'' isVal_column (rand_draw fw) (out_df oc)
        \<and> dbutils_fs_rm (drop 5 model_dir) True fs0 = Inr f1
        \<and> fit_impl fw (new_estimator (hvd_size fw)) (out_df_with_val oc) f1
             = Inr (out_transformer oc, f2)
        \<and> transform_impl fw (out_transformer oc) (out_df oc) f2 = Inr (out_res oc)
        \<and> out_est oc = (new_estimator (hvd_size fw))\<lparr>maxSteps := 10000\<rparr>
        \<and> fit_impl fw (out_est oc) (out_df_with_val oc) f2 = Inr (out_new_transformer oc, f3)
        \<and> transform_impl fw (out_transformer oc) (out_df oc) f3 = Inr (out_new_res oc)
        \<and> dbutils_fs_cp ''file:/tmp/horovod_estimator/'' ''dbfs:/horovod_estimator/'' True f3
             = Inr f4
        \<and> fs (out_state oc) = sh_rm_rf ''/tmp/horovod_estimator'' f4)
    \<and> trace (out_state oc) =
       [EvLoadData ''/tmp/mnist'', EvCreateDataFrame, EvDisplay (out_df oc), EvHelp,
        EvFsRm ''horovod_estimator'' True,
        EvFit (new_estimator (hvd_size fw)) (out_df_with_val oc),
        EvTransform (out_transformer oc) (out_df oc), EvDisplay (out_res oc),
        EvSetMaxSteps 10000,
        EvFit (out_est oc) (out_df_with_val oc),
        EvTransform (out_transformer oc) (out_df oc), EvDisplay (out_new_res oc),
        EvFsCp ''file:/tmp/horovod_estimator/'' ''dbfs:/horovod_estimator/'' True,
        EvSh ''ls -ltr /tmp/horovod_estimator'', EvFsLs ''dbfs:/horovod_estimator/'',
        EvSh ''rm -rf /tmp/horovod_estimator'', EvSh ''ls -ltr /tmp/horovod_estimator'']
    \<and> filter is_stage (trace (out_state oc)) =
       [EvFit (new_estimator (hvd_size fw)) (out_df_with_val oc),
        EvTransform (out_transformer oc) (out_df oc),
        EvSetMaxSteps 10000,
        EvFit (out_est oc) (out_df_with_val oc),
        EvTransform (out_transformer oc) (out_df oc)]
    \<and> maxSteps (new_estimator (hvd_size fw)) = 5000
    \<and> maxSteps (out_est oc) = 10000
    \<and> maxSteps (new_estimator (hvd_size fw)) < maxSteps (out_est oc))
   \<and> (\<forall>df f1 t f2 res t' f3 res' f4.
          load_cell (fst (mnist_train fw)) (snd (mnist_train fw)) = Inr df
        \<and> dbutils_fs_rm (drop 5 model_dir) True fs0 = Inr f1
        \<and> fit_impl fw (new_estimator (hvd_size fw))
             (withColumn ''isVal'' isVal_column (rand_draw fw) df) f1 = Inr (t, f2)
        \<and> transform_impl fw t df f2 = Inr res
        \<and> fit_impl fw ((new_estimator (hvd_size fw))\<lparr>maxSteps := 10000\<rparr>)
             (withColumn ''isVal'' isVal_column (rand_draw fw) df) f2 = Inr (t', f3)
        \<and> transform_impl fw t df f3 = Inr res'
        \<and> dbutils_fs_cp ''file:/tmp/horovod_estimator/'' ''dbfs:/horovod_estimator/'' True f3
             = Inr f4
        \<longrightarrow> (\<exists>oc. notebook fw fs0 = Inr oc \<and> out_df oc = df \<and> out_transformer oc = t
               \<and> out_res oc = res \<and> out_new_transformer oc = t' \<and> out_new_res oc = res'
               \<and> fs (out_state oc) = sh_rm_rf ''/tmp/horovod_estimator'' f4))
   \<and> (\<forall>df f1 e.
          load_cell (fst (mnist_train fw)) (snd (mnist_train fw)) = Inr df
        \<and> dbutils_fs_rm (drop 5 model_dir) True fs0 = Inr f1
        \<and> fit_impl fw (new_estimator (hvd_size fw))
             (withColumn ''isVal'' isVal_column (rand_draw fw) df) f1 = Inl e
        \<longrightarrow> notebook fw fs0 = Inl e)
   \<and> (\<forall>df f1 t f2 e.
          load_cell (fst (mnist_train fw)) (snd (mnist_train fw)) = Inr df
        \<and> dbutils_fs_rm (drop 5 model_dir) True fs0 = Inr f1
        \<and> fit_impl fw (new_estimator (hvd_size fw))
             (withColumn ''isVal'' isVal_column (rand_draw fw) df) f1 = Inr (t, f2)
        \<and> transform_impl fw t df f2 = Inl e
        \<longrightarrow> notebook fw fs0 = Inl e)
   \<and> (\<forall>df f1 t f2 res e.
          load_cell (fst (mnist_train fw)) (snd (mnist_train fw)) = Inr df
        \<and> dbutils_fs_rm (drop 5 model_dir) True fs0 = Inr f1
        \<and> fit_impl fw (new_estimator (hvd_size fw))
             (withColumn ''isVal'' isVal_column (rand_draw fw) df) f1 = Inr (t, f2)
        \<and> transform_impl fw t df f2 = Inr res
        \<and> fit_impl fw ((new_estimator (hvd_size fw))\<lparr>maxSteps := 10000\<rparr>)
             (withColumn ''isVal'' isVal_column (rand_draw fw) df) f2 = Inl e
        \<longrightarrow> notebook fw fs0 = Inl e)
   \<and> (\<forall>df f1 t f2 res t' f3 e.
          load_cell (fst (mnist_train fw)) (snd (mnist_train fw)) = Inr df
        \<and> dbutils_fs_rm (drop 5 model_dir) True fs0 = Inr f1
        \<and> fit_impl fw (new_estimator (hvd_size fw))
             (withColumn ''isVal'' isVal_column (rand_draw fw) df) f1 = Inr (t, f2)
        \<and> transform_impl fw t df f2 = Inr res
        \<and> fit_impl fw ((new_estimator (hvd_size fw))\<lparr>maxSteps := 10000\<rparr>)
             (withColumn ''isVal'' isVal_column (rand_draw fw) df) f2 = Inr (t', f3)
        \<and> transform_impl fw t df f3 = Inl e
        \<longrightarrow> notebook fw fs0 = Inl e)"
proof (intro conjI allI impI)
  fix oc assume nb: "notebook fw fs0 = Inr oc"
  from nb show "\<exists>f1 f2 f3 f4.
          load_cell (fst (mnist_train fw)) (snd (mnist_train fw)) = Inr (out_df oc)
        \<and> out_df_with_val oc = withColumn ''isVal'' isVal_column (rand_draw fw) (out_df oc)
        \<and> dbutils_fs_rm (drop 5 model_dir) True fs0 = Inr f1
        \<and> fit_impl fw (new_estimator (hvd_size fw)) (out_df_with_val oc) f1
             = Inr (out_transformer oc, f2)
        \<and> transform_impl fw (out_transformer oc) (out_df oc) f2 = Inr (out_res oc)
        \<and> out_est oc = (new_estimator (hvd_size fw))\<lparr>maxSteps := 10000\<rparr>
        \<and> fit_impl fw (out_est oc) (out_df_with_val oc) f2 = Inr (out_new_transformer oc, f3)
        \<and> transform_impl fw (out_transformer oc) (out_df oc) f3 = Inr (out_new_res oc)
        \<and> dbutils_fs_cp ''file:/tmp/horovod_estimator/'' ''dbfs:/horovod_estimator/'' True f3
             = Inr f4
        \<and> fs (out_state oc) = sh_rm_rf ''/tmp/horovod_estimator'' f4"
    by (elim notebook_Inr) auto
  from nb show "trace (out_state oc) =
       [EvLoadData ''/tmp/mnist'', EvCreateDataFrame, EvDisplay (out_df oc), EvHelp,
        EvFsRm ''horovod_estimator'' True,
        EvFit (new_estimator (hvd_size fw)) (out_df_with_val oc),
        EvTransform (out_transformer oc) (out_df oc), EvDisplay (out_res oc),
        EvSetMaxSteps 10000,
        EvFit (out_est oc) (out_df_with_val oc),
        EvTransform (out_transformer oc) (out_df oc), EvDisplay (out_new_res oc),
        EvFsCp ''file:/tmp/horovod_estimator/'' ''dbfs:/horovod_estimator/'' True,
        EvSh ''ls -ltr /tmp/horovod_estimator'', EvFsLs ''dbfs:/horovod_estimator/'',
        EvSh ''rm -rf /tmp/horovod_estimator'', EvSh ''ls -ltr /tmp/horovod_estimator'']"
    by (elim notebook_Inr) simp
  from nb show "filter is_stage (trace (out_state oc)) =
       [EvFit (new_estimator (hvd_size fw)) (out_df_with_val oc),
        EvTransform (out_transformer oc) (out_df oc),
        EvSetMaxSteps 10000,
        EvFit (out_est oc) (out_df_with_val oc),
        EvTransform (out_transformer oc) (out_df oc)]"
    by (elim notebook_Inr) simp
  show "maxSteps (new_estimator (hvd_size fw)) = 5000" by (simp add: new_estimator_def)
  from nb show "maxSteps (out_est oc) = 10000" by (elim notebook_Inr) simp
  from nb show "maxSteps (new_estimator (hvd_size fw)) < maxSteps (out_est oc)"
    by (elim notebook_Inr) (simp add: new_estimator_def)
qed (simp_all add: notebook_unfold)


theorem pipeline_order_witness:
  "notebook sample_framework sample_store = Inr sample_outcome
   \<and> filter is_stage (trace (out_state sample_outcome)) =
       [EvFit (new_estimator 2) (out_df_with_val sample_outcome),
        EvTransform 5000 (out_df sample_outcome),
        EvSetMaxSteps 10000,
        EvFit ((new_estimator 2)\<lparr>maxSteps := 10000\<rparr>) (out_df_with_val sample_outcome),
        EvTransform 5000 (out_df sample_outcome)]
   \<and> maxSteps (new_estimator 2) = 5000
   \<and> maxSteps (out_est sample_outcome) = 10000
   \<and> (\<exists>f3. fit_impl sample_framework (out_est sample_outcome)
                (out_df_with_val sample_outcome)
                [((LocalFile, [''tmp'', ''horovod_estimator'', ''checkpoint'']), ''model.ckpt-5000''),
                 ((LocalFile, [''tmp'', ''horovod_estimator'', ''events'']), ''old'')]
              = Inr (out_new_transformer sample_outcome, f3)
          \<and> transform_impl sample_framework (out_transformer sample_outcome)
                (out_df sample_outcome) f3 = Inr (out_new_res sample_outcome))
   \<and> notebook
        (sample_framework\<lparr>transform_impl := (\<lambda>t df f.
           if content f (LocalFile, [''tmp'', ''horovod_estimator'', ''checkpoint''])
                = Some ''model.ckpt-10000''
           then Inl (FrameworkError ''transform'')
           else transform_impl sample_framework t df f)\<rparr>)
        sample_store
       = Inl (FrameworkError ''transform'')"
proof -
  let ?fw = "sample_framework\<lparr>transform_impl := (\<lambda>t df f.
           if content f (LocalFile, [''tmp'', ''horovod_estimator'', ''checkpoint''])
                = Some ''model.ckpt-10000''
           then Inl (FrameworkError ''transform'')
           else transform_impl sample_framework t df f)\<rparr>"
  let ?df = "\<lparr>schema = mnist_schema, rows = [[VArray (replicate 784 0), VLong 3]]\<rparr>"
  let ?f1 = "[((LocalFile, [''tmp'', ''horovod_estimator'', ''events'']), ''old'')]"
  let ?f2 = "[((LocalFile, [''tmp'', ''horovod_estimator'', ''checkpoint'']), ''model.ckpt-5000''),
              ((LocalFile, [''tmp'', ''horovod_estimator'', ''events'']), ''old'')]"
  let ?f3 = "[((LocalFile, [''tmp'', ''horovod_estimator'', ''checkpoint'']), ''model.ckpt-10000''),
              ((LocalFile, [''tmp'', ''horovod_estimator'', ''events'']), ''old'')]"
  let ?res = "\<lparr>schema = mnist_schema @ [(''classes'', LongType)],
               rows = [[VArray (replicate 784 0), VLong 3, VLong 5000]]\<rparr>"
  have h: "hvd_size sample_framework = 2" by (simp add: sample_framework_def)
  note po = pipeline_order [of sample_framework sample_store]
  note ok = po [THEN conjunct1, rule_format, OF sample_run]
  from ok have stages: "filter is_stage (trace (out_state sample_outcome)) =
       [EvFit (new_estimator 2) (out_df_with_val sample_outcome),
        EvTransform 5000 (out_df sample_outcome),
        EvSetMaxSteps 10000,
        EvFit ((new_estimator 2)\<lparr>maxSteps := 10000\<rparr>) (out_df_with_val sample_outcome),
        EvTransform 5000 (out_df sample_outcome)]"
    unfolding h by (simp add: sample_outcome_def)
  from ok have m: "maxSteps (new_estimator 2) = 5000" "maxSteps (out_est sample_outcome) = 10000"
    unfolding h by simp_all
  from ok obtain f1 f2 f3 where
    rm: "dbutils_fs_rm (drop 5 model_dir) True sample_store = Inr f1"
    and fit1: "fit_impl sample_framework (new_estimator (hvd_size sample_framework))
                 (out_df_with_val sample_outcome) f1 = Inr (out_transformer sample_outcome, f2)"
    and fit2: "fit_impl sample_framework (out_est sample_outcome)
                 (out_df_with_val sample_outcome) f2 = Inr (out_new_transformer sample_outcome, f3)"
    and tr2: "transform_impl sample_framework (out_transformer sample_outcome)
                (out_df sample_outcome) f3 = Inr (out_new_res sample_outcome)"
    by blast
  from rm have f1: "f1 = ?f1" by (simp add: sample_rm)
  from fit1 have f2: "f2 = ?f2"
    unfolding f1 sample_fit h by (simp add: new_estimator_def)
  from fit2 tr2 have chain: "\<exists>f3. fit_impl sample_framework (out_est sample_outcome)
                (out_df_with_val sample_outcome) ?f2
              = Inr (out_new_transformer sample_outcome, f3)
          \<and> transform_impl sample_framework (out_transformer sample_outcome)
                (out_df sample_outcome) f3 = Inr (out_new_res sample_outcome)"
    unfolding f2 by blast
  have fields: "hvd_size ?fw = 2" "mnist_train ?fw = mnist_train sample_framework"
    "rand_draw ?fw = rand_draw sample_framework" "fit_impl ?fw = fit_impl sample_framework"
    by (simp_all add: sample_framework_def)
  have l: "load_cell (fst (mnist_train ?fw)) (snd (mnist_train ?fw)) = Inr ?df"
    unfolding fields by (rule sample_load)
  have w: "withColumn ''isVal'' isVal_column (rand_draw ?fw) ?df
             = \<lparr>schema = mnist_schema @ [(''isVal'', BooleanType)],
                rows = [[VArray (replicate 784 0), VLong 3, VBool True]]\<rparr>"
    unfolding fields by (rule sample_with_val)
  have e1: "fit_impl ?fw (new_estimator (hvd_size ?fw))
              (withColumn ''isVal'' isVal_column (rand_draw ?fw) ?df) ?f1 = Inr (5000, ?f2)"
    unfolding w fields sample_fit by (simp add: new_estimator_def)
  have e2: "transform_impl ?fw 5000 ?df ?f2 = Inr ?res"
    by (simp add: sample_transform content_def)
  have e3: "fit_impl ?fw ((new_estimator (hvd_size ?fw))\<lparr>maxSteps := 10000\<rparr>)
              (withColumn ''isVal'' isVal_column (rand_draw ?fw) ?df) ?f2 = Inr (10000, ?f3)"
    unfolding w fields sample_fit by simp
  have e4: "transform_impl ?fw 5000 ?df ?f3 = Inl (FrameworkError ''transform'')"
    by (simp add: content_def)
  from pipeline_order [of ?fw sample_store, THEN conjunct2, THEN conjunct2, THEN conjunct2,
         THEN conjunct2, THEN conjunct2, rule_format, of ?df ?f1 5000 ?f2 ?res 10000 ?f3
         "FrameworkError ''transform''"]
    l sample_rm e1 e2 e3 e4
  have fail: "notebook ?fw sample_store = Inl (FrameworkError ''transform'')"
    by blast
  from sample_run stages m chain fail show ?thesis by (intro conjI)
qed


lemma content_sh_rm:
  "content (sh_rm_rf s fsys) p = (if under (local_path s) p then None else content fsys p)"
  unfolding sh_rm_rf_def by (rule content_rm)

lemma local_tmp: "local_path ''/tmp/horovod_estimator'' = (LocalFile, [''tmp'', ''horovod_estimator''])"
  by (simp add: local_path_def components_def)

text \<open>
  C8. In every run that reaches its end, the store is cleaned, the first fit runs on it,
  the second fit runs on what the first left, and the copy runs on the store \<open>f3\<close> the
  second fit left, after both fits and both transforms and before no further stage. The
  copy goes from \<open>file:/tmp/horovod_estimator/\<close>, the local model directory of the
  estimator, to \<open>dbfs:/horovod_estimator/\<close>: every file below the source in \<open>f3\<close> is, in the
  store \<open>f4\<close> after the copy and in the store the notebook leaves behind, below the target
  at the same relative place with the same content. The copy leaves every local file, so
  every file of the source, and every file outside the target as it was. The store the
  notebook leaves behind is \<open>f4\<close> without the local model directory, which the later shell
  cell removes; its distributed part is that of \<open>f4\<close>.
\<close>

theorem copy_checkpoints:
  assumes "notebook fw fs0 = Inr oc"
  shows "\<exists>f1 f2 f3 f4.
           dbutils_fs_rm (drop 5 model_dir) True fs0 = Inr f1
         \<and> fit_impl fw (new_estimator (hvd_size fw)) (out_df_with_val oc) f1
              = Inr (out_transformer oc, f2)
         \<and> fit_impl fw (out_est oc) (out_df_with_val oc) f2 = Inr (out_new_transformer oc, f3)
         \<and> dbutils_fs_cp ''file:/tmp/horovod_estimator/'' ''dbfs:/horovod_estimator/'' True f3
              = Inr f4
         \<and> fs (out_state oc) = sh_rm_rf ''/tmp/horovod_estimator'' f4
         \<and> resolve ''file:/tmp/horovod_estimator/'' = local_path (modelDir (out_est oc))
         \<and> resolve ''dbfs:/horovod_estimator/'' = (DBFS, [''horovod_estimator''])
         \<and> (\<forall>rest c. content f3 (LocalFile, [''tmp'', ''horovod_estimator''] @ rest) = Some c
                \<longrightarrow> content f4 (DBFS, [''horovod_estimator''] @ rest) = Some c
                  \<and> content (fs (out_state oc)) (DBFS, [''horovod_estimator''] @ rest) = Some c)
         \<and> (\<forall>p. fst p = LocalFile \<longrightarrow> content f4 p = content f3 p)
         \<and> (\<forall>p. \<not> under (DBFS, [''horovod_estimator'']) p \<longrightarrow> content f4 p = content f3 p)
         \<and> (\<forall>p. fst p = DBFS \<longrightarrow> content (fs (out_state oc)) p = content f4 p)
         \<and> (\<exists>pre post.
               trace (out_state oc) = pre @
                 [EvFsCp ''file:/tmp/horovod_estimator/'' ''dbfs:/horovod_estimator/'' True] @ post
             \<and> filter is_stage pre =
                 [EvFit (new_estimator (hvd_size fw)) (out_df_with_val oc),
                  EvTransform (out_transformer oc) (out_df oc),
                  EvSetMaxSteps 10000,
                  EvFit (out_est oc) (out_df_with_val oc),
                  EvTransform (out_transformer oc) (out_df oc)]
             \<and> filter is_stage post = [])"
proof -
  from assms obtain df and f1 :: filesystem and t f2 res t' f3 res' f4 where
    rm: "dbutils_fs_rm (drop 5 model_dir) True fs0 = Inr f1"
    and fit1: "fit_impl fw (new_estimator (hvd_size fw))
       (withColumn ''isVal'' isVal_column (rand_draw fw) df) f1 = Inr (t, f2)"
    and fit2: "fit_impl fw ((new_estimator (hvd_size fw))\<lparr>maxSteps := 10000\<rparr>)
       (withColumn ''isVal'' isVal_column (rand_draw fw) df) f2 = Inr (t', f3)"
    and cp: "dbutils_fs_cp ''file:/tmp/horovod_estimator/'' ''dbfs:/horovod_estimator/'' True f3
              = Inr f4"
    and oc: "oc = \<lparr>out_df = df, out_est = (new_estimator (hvd_size fw))\<lparr>maxSteps := 10000\<rparr>,
              out_df_with_val = withColumn ''isVal'' isVal_column (rand_draw fw) df,
              out_transformer = t, out_res = res,
              out_new_transformer = t', out_new_res = res',
              out_state = \<lparr>fs = sh_rm_rf ''/tmp/horovod_estimator'' f4,
                             trace =
     [EvLoadData ''/tmp/mnist'', EvCreateDataFrame, EvDisplay df, EvHelp,
      EvFsRm ''horovod_estimator'' True,
      EvFit (new_estimator (hvd_size fw)) (withColumn ''isVal'' isVal_column (rand_draw fw) df),
      EvTransform t df, EvDisplay res, EvSetMaxSteps 10000,
      EvFit ((new_estimator (hvd_size fw))\<lparr>maxSteps := 10000\<rparr>)
            (withColumn ''isVal'' isVal_column (rand_draw fw) df),
      EvTransform t df, EvDisplay res',
      EvFsCp ''file:/tmp/horovod_estimator/'' ''dbfs:/horovod_estimator/'' True,
      EvSh ''ls -ltr /tmp/horovod_estimator'', EvFsLs ''dbfs:/horovod_estimator/'',
      EvSh ''rm -rf /tmp/horovod_estimator'', EvSh ''ls -ltr /tmp/horovod_estimator'']\<rparr>\<rparr>"
    by (rule notebook_Inr)
  let ?pre = "[EvLoadData ''/tmp/mnist'', EvCreateDataFrame, EvDisplay df, EvHelp,
      EvFsRm ''horovod_estimator'' True,
      EvFit (new_estimator (hvd_size fw)) (withColumn ''isVal'' isVal_column (rand_draw fw) df),
      EvTransform t df, EvDisplay res, EvSetMaxSteps 10000,
      EvFit ((new_estimator (hvd_size fw))\<lparr>maxSteps := 10000\<rparr>)
            (withColumn ''isVal'' isVal_column (rand_draw fw) df),
      EvTransform t df, EvDisplay res']"
  let ?post = "[EvSh ''ls -ltr /tmp/horovod_estimator'', EvFsLs ''dbfs:/horovod_estimator/'',
      EvSh ''rm -rf /tmp/horovod_estimator'', EvSh ''ls -ltr /tmp/horovod_estimator'']"
  have fin: "fs (out_state oc) = sh_rm_rf ''/tmp/horovod_estimator'' f4" using oc by simp
  have dbfs: "content (fs (out_state oc)) p = content f4 p" if "fst p = DBFS" for p :: path
    unfolding fin content_sh_rm local_tmp using that by (simp add: under_def)
  have copied: "content f4 (DBFS, [''horovod_estimator''] @ rest) = Some c
                  \<and> content (fs (out_state oc)) (DBFS, [''horovod_estimator''] @ rest) = Some c"
    if "content f3 (LocalFile, [''tmp'', ''horovod_estimator''] @ rest) = Some c" for rest c
  proof -
    have u: "under (resolve ''file:/tmp/horovod_estimator/'')
               (LocalFile, [''tmp'', ''horovod_estimator''] @ rest)"
      unfolding resolve_copy_from by (simp add: under_def)
    from cp_copied [OF cp u that]
    have "content f4 (DBFS, [''horovod_estimator''] @ rest) = Some c"
      unfolding resolve_copy_from resolve_copy_to by (simp add: relocate_def)
    with dbfs [of "(DBFS, [''horovod_estimator''] @ rest)"] show ?thesis by simp
  qed
  have kept: "content f4 p = content f3 p" if "\<not> under (DBFS, [''horovod_estimator'']) p" for p
    using cp_other_scheme [OF cp, of p] that unfolding resolve_copy_to by simp
  have local: "content f4 p = content f3 p" if "fst p = LocalFile" for p :: path
    by (rule kept) (simp add: under_def that)
  have a: "fit_impl fw (new_estimator (hvd_size fw)) (out_df_with_val oc) f1
              = Inr (out_transformer oc, f2)"
    using fit1 oc by simp
  have b: "fit_impl fw (out_est oc) (out_df_with_val oc) f2 = Inr (out_new_transformer oc, f3)"
    using fit2 oc by simp
  have c: "trace (out_state oc) = ?pre @
                 [EvFsCp ''file:/tmp/horovod_estimator/'' ''dbfs:/horovod_estimator/'' True] @ ?post"
    using oc by simp
  have d: "filter is_stage ?pre =
              [EvFit (new_estimator (hvd_size fw)) (out_df_with_val oc),
               EvTransform (out_transformer oc) (out_df oc),
               EvSetMaxSteps 10000,
               EvFit (out_est oc) (out_df_with_val oc),
               EvTransform (out_transformer oc) (out_df oc)]"
    using oc by simp
  have e: "filter is_stage ?post = []" by simp
  have f: "resolve ''file:/tmp/horovod_estimator/'' = local_path (modelDir (out_est oc))"
    using oc local_model_dir resolve_copy_from by (simp add: new_estimator_def)
  from c d e have tr: "\<exists>pre post.
               trace (out_state oc) = pre @
                 [EvFsCp ''file:/tmp/horovod_estimator/'' ''dbfs:/horovod_estimator/'' True] @ post
             \<and> filter is_stage pre =
                 [EvFit (new_estimator (hvd_size fw)) (out_df_with_val oc),
                  EvTransform (out_transformer oc) (out_df oc),
                  EvSetMaxSteps 10000,
                  EvFit (out_est oc) (out_df_with_val oc),
                  EvTransform (out_transformer oc) (out_df oc)]
             \<and> filter is_stage post = []"
    by blast
  from rm a b cp fin f resolve_copy_to copied local kept dbfs tr show ?thesis
    by (intro exI [of _ f1] exI [of _ f2] exI [of _ f3] exI [of _ f4]) blast
qed

theorem copy_checkpoints_witness:
  "notebook sample_framework sample_store = Inr sample_outcome
   \<and> content sample_store (DBFS, [''horovod_estimator'', ''checkpoint'']) = Some ''stale''
   \<and> content (fs (out_state sample_outcome)) (DBFS, [''horovod_estimator'', ''checkpoint''])
       = Some ''model.ckpt-10000''
   \<and> content (fs (out_state sample_outcome)) (DBFS, [''horovod_estimator'', ''events''])
       = Some ''old''
   \<and> trace (out_state sample_outcome) ! 12
       = EvFsCp ''file:/tmp/horovod_estimator/'' ''dbfs:/horovod_estimator/'' True"
proof -
  have h: "hvd_size sample_framework = 2" by (simp add: sample_framework_def)
  from copy_checkpoints [OF sample_run] obtain f1 f2 f3 f4 where
    rm: "dbutils_fs_rm (drop 5 model_dir) True sample_store = Inr f1"
    and fit1: "fit_impl sample_framework (new_estimator (hvd_size sample_framework))
                 (out_df_with_val sample_outcome) f1 = Inr (out_transformer sample_outcome, f2)"
    and fit2: "fit_impl sample_framework (out_est sample_outcome)
                 (out_df_with_val sample_outcome) f2 = Inr (out_new_transformer sample_outcome, f3)"
    and copied: "\<forall>rest c. content f3 (LocalFile, [''tmp'', ''horovod_estimator''] @ rest) = Some c
                \<longrightarrow> content f4 (DBFS, [''horovod_estimator''] @ rest) = Some c
                  \<and> content (fs (out_state sample_outcome))
                        (DBFS, [''horovod_estimator''] @ rest) = Some c"
    by blast
  from rm have f1: "f1 = [((LocalFile, [''tmp'', ''horovod_estimator'', ''events'']), ''old'')]"
    by (simp add: sample_rm)
  from fit1 have f2: "f2 =
      [((LocalFile, [''tmp'', ''horovod_estimator'', ''checkpoint'']), ''model.ckpt-5000''),
       ((LocalFile, [''tmp'', ''horovod_estimator'', ''events'']), ''old'')]"
    unfolding f1 sample_fit h by (simp add: new_estimator_def)
  from fit2 have f3: "f3 =
      [((LocalFile, [''tmp'', ''horovod_estimator'', ''checkpoint'']), ''model.ckpt-10000''),
       ((LocalFile, [''tmp'', ''horovod_estimator'', ''events'']), ''old'')]"
    unfolding f2 sample_fit by (simp add: sample_outcome_def)
  have c3: "content f3 (LocalFile, [''tmp'', ''horovod_estimator''] @ [''checkpoint''])
              = Some ''model.ckpt-10000''"
    "content f3 (LocalFile, [''tmp'', ''horovod_estimator''] @ [''events'']) = Some ''old''"
    unfolding f3 by (simp_all add: content_def)
  from copied [rule_format, OF c3(1)]
  have a: "content (fs (out_state sample_outcome)) (DBFS, [''horovod_estimator'', ''checkpoint''])
       = Some ''model.ckpt-10000''" by simp
  from copied [rule_format, OF c3(2)]
  have b: "content (fs (out_state sample_outcome)) (DBFS, [''horovod_estimator'', ''events''])
       = Some ''old''" by simp
  have s: "content sample_store (DBFS, [''horovod_estimator'', ''checkpoint'']) = Some ''stale''"
    by (simp add: sample_store_def content_def)
  have t: "trace (out_state sample_outcome) ! 12
       = EvFsCp ''file:/tmp/horovod_estimator/'' ''dbfs:/horovod_estimator/'' True"
    by (simp add: sample_outcome_def)
  from sample_run s a b t show ?thesis by (intro conjI)
qed

end
